theory Spec2Isabelle
  imports Main
begin

section \<open>Texts\<close>

text \<open>
  A Python \<^verbatim>\<open>str\<close> is a sequence of Unicode code points, modelled as a list of
  numbers; \<open>ascii\<close> embeds a literal of the program. The fixed texts of the error manager
  (messages, keys, identifiers) stay of type \<^typ>\<open>string\<close>.
\<close>

type_synonym str = "nat list"

definition ascii :: "string \<Rightarrow> str" where
  "ascii s = map of_char s"

definition hyphen :: nat where
  "hyphen = 45"

definition underscore :: nat where
  "underscore = 95"

text \<open>
  The Unicode character database of the Python runtime is not part of the repository; it
  is a parameter. Its three tables are read for the code points above 127 only:
  \<^item> \<open>uni_lower pre c post\<close>: the code points that \<^verbatim>\<open>str.lower\<close> writes for \<open>c\<close>
    standing between \<open>pre\<close> and \<open>post\<close> (the full lowercase mapping; the context
    matters for the capital sigma);
  \<^item> \<open>uni_isalnum c\<close>: \<^verbatim>\<open>str.isalnum\<close> of \<open>c\<close>, which is what \<^verbatim>\<open>\w\<close> tests beside the
    underscore;
  \<^item> \<open>uni_isspace c\<close>: \<^verbatim>\<open>str.isspace\<close> of \<open>c\<close>, which is what \<^verbatim>\<open>\s\<close> and
    \<^verbatim>\<open>str.strip\<close> test.
  On the ASCII range the three are the tables below.
\<close>

record unicode =
  uni_lower :: "str \<Rightarrow> nat \<Rightarrow> str \<Rightarrow> str"
  uni_isalnum :: "nat \<Rightarrow> bool"
  uni_isspace :: "nat \<Rightarrow> bool"

definition is_alnum :: "unicode \<Rightarrow> nat \<Rightarrow> bool" where
  "is_alnum U c =
     (if c < 128
      then (48 \<le> c \<and> c \<le> 57) \<or> (65 \<le> c \<and> c \<le> 90) \<or> (97 \<le> c \<and> c \<le> 122)
      else uni_isalnum U c)"

text \<open>The regular-expression class \<^verbatim>\<open>\w\<close>: letters, digits and the underscore.\<close>

definition is_word :: "unicode \<Rightarrow> nat \<Rightarrow> bool" where
  "is_word U c = (is_alnum U c \<or> c = underscore)"

text \<open>The class \<^verbatim>\<open>\s\<close> (\<^verbatim>\<open>str.isspace\<close>): in ASCII, tab to carriage return, the
  four separators FS, GS, RS, US, and the blank.\<close>

definition is_space :: "unicode \<Rightarrow> nat \<Rightarrow> bool" where
  "is_space U c =
     (if c < 128
      then (9 \<le> c \<and> c \<le> 13) \<or> (28 \<le> c \<and> c \<le> 32)
      else uni_isspace U c)"

text \<open>\<^verbatim>\<open>str.lower\<close>, code point by code point from the left.\<close>

fun lower_from :: "unicode \<Rightarrow> str \<Rightarrow> str \<Rightarrow> str" where
  "lower_from U pre [] = []"
| "lower_from U pre (c # post) =
     (if c < 128 then [if 65 \<le> c \<and> c \<le> 90 then c + 32 else c]
      else uni_lower U pre c post)
     @ lower_from U (pre @ [c]) post"

definition lower :: "unicode \<Rightarrow> str \<Rightarrow> str" where
  "lower U s = lower_from U [] s"

text \<open>\<^verbatim>\<open>str(n)\<close> for a non-negative integer: its decimal digits.\<close>

fun str_nat :: "nat \<Rightarrow> string" where
  "str_nat n = (if n < 10 then [char_of (48 + n)]
                else str_nat (n div 10) @ [char_of (48 + n mod 10)])"

declare str_nat.simps [simp del]

section \<open>Slug normalization\<close>

text \<open>
  \<^verbatim>\<open>ArticleService._generate_slug\<close> and \<^verbatim>\<open>CategoryService._generate_slug\<close> have the
  same body:
  \<^verbatim>\<open>
    slug = title.lower()
    slug = re.sub(r'[^\w\s-]', '', slug)
    slug = re.sub(r'[-\s]+', '-', slug)
    slug = slug.strip('-')
    return slug[:100]
  \<close>
  Each \<^verbatim>\<open>re.sub\<close> scans the text from the left; the second one replaces every match of
  the greedy pattern, a maximal run of hyphens and spaces, by one hyphen. The slice counts
  code points.
\<close>

definition is_special :: "unicode \<Rightarrow> nat \<Rightarrow> bool" where
  "is_special U c = (\<not> (is_word U c \<or> is_space U c \<or> c = hyphen))"

definition is_sep :: "unicode \<Rightarrow> nat \<Rightarrow> bool" where
  "is_sep U c = (c = hyphen \<or> is_space U c)"

fun remove_special :: "unicode \<Rightarrow> str \<Rightarrow> str" where
  "remove_special U [] = []"
| "remove_special U (c # cs) =
     (if is_special U c then remove_special U cs else c # remove_special U cs)"

function collapse_seps :: "unicode \<Rightarrow> str \<Rightarrow> str" where
  "collapse_seps U [] = []"
| "collapse_seps U (c # cs) =
     (if is_sep U c then hyphen # collapse_seps U (dropWhile (is_sep U) cs)
      else c # collapse_seps U cs)"
  by pat_completeness auto
termination
  by (relation "measure (\<lambda>(U, s). length s)") (auto simp: length_dropWhile_le le_imp_less_Suc)

definition strip_hyphens :: "str \<Rightarrow> str" where
  "strip_hyphens s =
     rev (dropWhile (\<lambda>c. c = hyphen) (rev (dropWhile (\<lambda>c. c = hyphen) s)))"

definition generate_slug :: "unicode \<Rightarrow> str \<Rightarrow> str" where
  "generate_slug U title =
     (let slug = lower U title;
          slug = remove_special U slug;
          slug = collapse_seps U slug;
          slug = strip_hyphens slug
      in take 100 slug)"

text \<open>
  The normalization as the specification words it: lowercase, keep only the characters of
  the class \<open>keep\<close>, turn every run of spaces and hyphens into one hyphen, trim the hyphens
  at both ends, truncate to 100 characters. A run is squeezed by writing a hyphen for each
  of its characters and then dropping every hyphen that follows a hyphen. Trimming cuts
  the hyphens counted at the front and at the back.
\<close>

definition trimmed :: "str \<Rightarrow> str" where
  "trimmed s =
     (let front = length (takeWhile (\<lambda>c. c = hyphen) s);
          rest = drop front s;
          back = length (takeWhile (\<lambda>c. c = hyphen) (rev rest))
      in take (length rest - back) rest)"

fun squeeze_hyphens :: "str \<Rightarrow> str" where
  "squeeze_hyphens [] = []"
| "squeeze_hyphens [c] = [c]"
| "squeeze_hyphens (c # d # cs) =
     (if c = hyphen \<and> d = hyphen then squeeze_hyphens (d # cs)
      else c # squeeze_hyphens (d # cs))"

definition spec_normalize :: "unicode \<Rightarrow> (nat \<Rightarrow> bool) \<Rightarrow> str \<Rightarrow> str" where
  "spec_normalize U keep text =
     take 100 (trimmed (squeeze_hyphens
       (map (\<lambda>c. if is_sep U c then hyphen else c) (filter keep (lower U text)))))"

text \<open>The class the specification names: alphanumeric, whitespace or hyphen.\<close>

definition spec_keep :: "unicode \<Rightarrow> nat \<Rightarrow> bool" where
  "spec_keep U c = (is_alnum U c \<or> is_space U c \<or> c = hyphen)"

text \<open>The class the code keeps: the specification's and the underscore.\<close>

definition code_keep :: "unicode \<Rightarrow> nat \<Rightarrow> bool" where
  "code_keep U c = (is_alnum U c \<or> c = underscore \<or> is_space U c \<or> c = hyphen)"

section \<open>Slug assignment\<close>

text \<open>
  A table is read by the slug queries through its \<open>(id, slug)\<close> columns only.
  \<^verbatim>\<open>slug_exists\<close> of both repositories:
  \<^verbatim>\<open>
    query = self.db.query(Article).filter(Article.slug == slug)
    if exclude_id:
        query = query.filter(Article.id != exclude_id)
    return query.first() is not None
  \<close>
  \<^verbatim>\<open>if exclude_id\<close> is false for \<^verbatim>\<open>None\<close> and for \<^verbatim>\<open>0\<close>.
\<close>

type_synonym slug_rows = "(nat \<times> str) list"

definition slug_exists :: "slug_rows \<Rightarrow> str \<Rightarrow> nat option \<Rightarrow> bool" where
  "slug_exists rows slug exclude_id =
     (let query = filter (\<lambda>r. snd r = slug) rows;
          query = (case exclude_id of
                     None \<Rightarrow> query
                   | Some i \<Rightarrow> if i \<noteq> 0 then filter (\<lambda>r. fst r \<noteq> i) query else query)
      in query \<noteq> [])"

text \<open>The candidate \<^verbatim>\<open>f"{original_slug}-{counter}"\<close>.\<close>

definition suffixed :: "str \<Rightarrow> nat \<Rightarrow> str" where
  "suffixed original_slug counter = original_slug @ ascii ''-'' @ ascii (str_nat counter)"

subsection \<open>Decimal numerals are injective\<close>

lemma digit_char_inj:
  "a < 10 \<Longrightarrow> b < 10 \<Longrightarrow> (char_of (48 + a) :: char) = char_of (48 + b) \<Longrightarrow> a = (b::nat)"
proof -
  assume a: "a < 10" and b: "b < 10"
    and eq: "(char_of (48 + a) :: char) = char_of (48 + b)"
  from eq have "(48 + a) mod 256 = (48 + b) mod 256"
    by (simp add: char_of_eq_iff take_bit_eq_mod)
  with a b show "a = b" by simp
qed

lemma str_nat_nonempty: "str_nat n \<noteq> []" "[] \<noteq> str_nat n"
  by (subst str_nat.simps, simp)+

lemma str_nat_inj: "str_nat n = str_nat m \<Longrightarrow> n = m"
proof (induction n arbitrary: m rule: str_nat.induct)
  case (1 n)
  show ?case
  proof (cases "n < 10")
    case small: True
    show ?thesis
    proof (cases "m < 10")
      case True
      with small "1.prems" show ?thesis
        by (auto simp: str_nat.simps [of n] str_nat.simps [of m] intro: digit_char_inj)
    next
      case False
      with small "1.prems" show ?thesis
        by (simp add: str_nat.simps [of n] str_nat.simps [of m] str_nat_nonempty)
    qed
  next
    case big: False
    show ?thesis
    proof (cases "m < 10")
      case True
      with big "1.prems" show ?thesis
        by (simp add: str_nat.simps [of n] str_nat.simps [of m] str_nat_nonempty)
    next
      case False
      with big "1.prems" have pre: "str_nat (n div 10) = str_nat (m div 10)"
        and lst: "(char_of (48 + n mod 10) :: char) = char_of (48 + m mod 10)"
        by (simp_all add: str_nat.simps [of n] str_nat.simps [of m])
      from "1.IH" [OF big pre] have d: "n div 10 = m div 10" .
      from lst have r: "n mod 10 = m mod 10"
        by (intro digit_char_inj) simp_all
      from d r show ?thesis
        by (metis div_mult_mod_eq)
    qed
  qed
qed

lemma ascii_inj: "ascii s = ascii t \<Longrightarrow> s = t"
proof -
  assume "ascii s = ascii t"
  then have "map (of_char :: char \<Rightarrow> nat) s = map of_char t" by (simp add: ascii_def)
  moreover have "inj (of_char :: char \<Rightarrow> nat)" by (simp add: inj_on_def)
  ultimately show "s = t" by (rule map_injective)
qed

lemma suffixed_inj: "suffixed b j = suffixed b k \<Longrightarrow> j = k"
  by (auto simp: suffixed_def dest: ascii_inj str_nat_inj)

lemma slug_exists_iff:
  "slug_exists rows slug e \<longleftrightarrow>
     (\<exists>r \<in> set rows. snd r = slug \<and> (case e of None \<Rightarrow> True | Some i \<Rightarrow> i = 0 \<or> fst r \<noteq> i))"
proof (cases e)
  case None
  then show ?thesis by (auto simp: slug_exists_def filter_empty_conv)
next
  case (Some i)
  show ?thesis
  proof (cases "i = 0")
    case True
    with Some show ?thesis by (auto simp: slug_exists_def filter_empty_conv)
  next
    case False
    with Some show ?thesis by (force simp: slug_exists_def filter_empty_conv)
  qed
qed

lemma finite_taken: "finite {k. slug_exists rows (suffixed b k) e}"
proof -
  have "{k. slug_exists rows (suffixed b k) e} \<subseteq> suffixed b -` (snd ` set rows)"
    by (force simp: slug_exists_iff)
  moreover have "finite (suffixed b -` (snd ` set rows))"
    by (rule finite_vimageI) (auto intro: injI suffixed_inj)
  ultimately show ?thesis by (rule finite_subset)
qed

text \<open>
  The uniqueness loop of \<^verbatim>\<open>create_article\<close>, \<^verbatim>\<open>update_article\<close> and
  \<^verbatim>\<open>create_category\<close>, in the loop's own variables:
  \<^verbatim>\<open>
    while self.article_repo.slug_exists(slug, exclude_id=...):
        slug = f"{original_slug}-{counter}"
        counter += 1
  \<close>
  It ends because the candidates are pairwise different and the table is finite.
\<close>

function ensure_unique :: "slug_rows \<Rightarrow> nat option \<Rightarrow> str \<Rightarrow> str \<Rightarrow> nat \<Rightarrow> str" where
  "ensure_unique rows exclude_id original_slug slug counter =
     (if slug_exists rows slug exclude_id
      then ensure_unique rows exclude_id original_slug (suffixed original_slug counter) (counter + 1)
      else slug)"
  by pat_completeness auto
termination
proof (relation "measure (\<lambda>(rows, e, b, slug, counter).
         (if slug_exists rows slug e then 1 else 0)
         + card {k. counter \<le> k \<and> slug_exists rows (suffixed b k) e})")
  show "wf (measure (\<lambda>(rows, e, b, slug, counter).
         (if slug_exists rows slug e then 1 else 0)
         + card {k. counter \<le> k \<and> slug_exists rows (suffixed b k) e}))"
    by simp
next
  fix rows :: slug_rows and e b slug and counter :: nat
  assume ex: "slug_exists rows slug e"
  let ?A = "\<lambda>c. {k. c \<le> k \<and> slug_exists rows (suffixed b k) e}"
  have fin: "finite (?A counter)"
    by (rule finite_subset [OF _ finite_taken [of rows b e]]) auto
  have "(if slug_exists rows (suffixed b counter) e then 1 else 0) + card (?A (counter + 1))
        \<le> card (?A counter)"
  proof (cases "slug_exists rows (suffixed b counter) e")
    case True
    have "?A counter = insert counter (?A (counter + 1))"
      using True by (auto simp: le_Suc_eq)
    moreover have "counter \<notin> ?A (counter + 1)" by simp
    moreover have "finite (?A (counter + 1))"
      by (rule finite_subset [OF _ fin]) auto
    ultimately show ?thesis using True by simp
  next
    case False
    have "?A (counter + 1) \<subseteq> ?A counter" by auto
    with fin have "card (?A (counter + 1)) \<le> card (?A counter)"
      by (rule card_mono)
    with False show ?thesis by simp
  qed
  with ex show "((rows, e, b, suffixed b counter, counter + 1), (rows, e, b, slug, counter))
        \<in> measure (\<lambda>(rows, e, b, slug, counter).
         (if slug_exists rows slug e then 1 else 0)
         + card {k. counter \<le> k \<and> slug_exists rows (suffixed b k) e})"
    by simp
qed

declare ensure_unique.simps [simp del]

text \<open>
  Slug assignment, as each service method does it: normalize, then run the loop from
  \<^verbatim>\<open>original_slug = slug\<close> and \<^verbatim>\<open>counter = 1\<close>.
\<close>

definition assign_slug :: "unicode \<Rightarrow> slug_rows \<Rightarrow> nat option \<Rightarrow> str \<Rightarrow> str" where
  "assign_slug U rows exclude_id text =
     (let slug = generate_slug U text;
          original_slug = slug;
          counter = 1
      in ensure_unique rows exclude_id original_slug slug counter)"

text \<open>The slugs that count as taken: those of the rows other than \<open>exclude_id\<close>.\<close>

definition visible_slugs :: "slug_rows \<Rightarrow> nat option \<Rightarrow> str set" where
  "visible_slugs rows exclude_id = snd ` set (filter (\<lambda>r. Some (fst r) \<noteq> exclude_id) rows)"

section \<open>Exceptions\<close>

text \<open>
  The exception classes of \<^verbatim>\<open>cms.exceptions\<close>; \<open>Builtin n\<close> is any other exception
  class, of name \<open>n\<close>. A \<^verbatim>\<open>CMSException\<close> carries a message, which is also its
  \<^verbatim>\<open>str()\<close>, and a dictionary of details (\<^verbatim>\<open>details or {}\<close>).
\<close>

datatype exn_class =
    CMSException | ValidationError | AuthenticationError | AuthorizationError
  | SecurityException | DatabaseError | ExternalServiceError | BusinessLogicError
  | ConfigurationError | Builtin string

fun class_name :: "exn_class \<Rightarrow> string" where
  "class_name CMSException = ''CMSException''"
| "class_name ValidationError = ''ValidationError''"
| "class_name AuthenticationError = ''AuthenticationError''"
| "class_name AuthorizationError = ''AuthorizationError''"
| "class_name SecurityException = ''SecurityException''"
| "class_name DatabaseError = ''DatabaseError''"
| "class_name ExternalServiceError = ''ExternalServiceError''"
| "class_name BusinessLogicError = ''BusinessLogicError''"
| "class_name ConfigurationError = ''ConfigurationError''"
| "class_name (Builtin n) = n"

type_synonym dict = "(string \<times> string) list"

text \<open>The \<^verbatim>\<open>context\<close> dictionary of a log record: its values may hold texts of a request.\<close>

type_synonym log_context = "(string \<times> str) list"

record exn =
  exn_class :: exn_class
  exn_message :: string
  exn_details :: dict

definition raise :: "exn_class \<Rightarrow> string \<Rightarrow> exn" where
  "raise cls msg = \<lparr>exn_class = cls, exn_message = msg, exn_details = []\<rparr>"

section \<open>Timestamps\<close>

text \<open>A \<^verbatim>\<open>datetime\<close> value, as \<^verbatim>\<open>datetime.utcnow()\<close> returns it.\<close>

record datetime =
  year :: nat
  month :: nat
  day :: nat
  hour :: nat
  minute :: nat
  second :: nat
  microsecond :: nat

text \<open>The conversions \<^verbatim>\<open>%02d\<close>, \<^verbatim>\<open>%04d\<close> and \<^verbatim>\<open>%06d\<close>: decimal digits, padded with
  zeros on the left up to the width.\<close>

definition zero_pad :: "nat \<Rightarrow> nat \<Rightarrow> string" where
  "zero_pad width n = replicate (width - length (str_nat n)) CHR ''0'' @ str_nat n"

text \<open>
  \<^verbatim>\<open>datetime.isoformat()\<close> with the default separator and \<^verbatim>\<open>timespec='auto'\<close>: the
  fraction is written exactly when the microsecond field is not zero.
\<close>

definition isoformat :: "datetime \<Rightarrow> string" where
  "isoformat dt =
     zero_pad 4 (year dt) @ ''-'' @ zero_pad 2 (month dt) @ ''-'' @ zero_pad 2 (day dt) @ ''T''
     @ zero_pad 2 (hour dt) @ '':'' @ zero_pad 2 (minute dt) @ '':'' @ zero_pad 2 (second dt)
     @ (if microsecond dt \<noteq> 0 then ''.'' @ zero_pad 6 (microsecond dt) else [])"

text \<open>\<^verbatim>\<open>strftime("%Y%m%d")\<close>, for the four-digit years of a wall clock.\<close>

definition strftime_Ymd :: "datetime \<Rightarrow> string" where
  "strftime_Ymd dt = zero_pad 4 (year dt) @ zero_pad 2 (month dt) @ zero_pad 2 (day dt)"

text \<open>
  Shapes of texts: in a pattern, \<open>d\<close> stands for one decimal digit and every other
  character for itself. The ranges of the fields of a \<^verbatim>\<open>datetime\<close>.
\<close>

definition is_digit :: "char \<Rightarrow> bool" where
  "is_digit c = (let n = (of_char c :: nat) in 48 \<le> n \<and> n \<le> 57)"

fun fits :: "string \<Rightarrow> string \<Rightarrow> bool" where
  "fits [] [] = True"
| "fits (p # ps) (c # cs) = ((if p = CHR ''d'' then is_digit c else c = p) \<and> fits ps cs)"
| "fits _ _ = False"

definition valid_datetime :: "datetime \<Rightarrow> bool" where
  "valid_datetime dt =
     (1 \<le> year dt \<and> year dt \<le> 9999 \<and> 1 \<le> month dt \<and> month dt \<le> 12 \<and>
      1 \<le> day dt \<and> day dt \<le> 31 \<and> hour dt < 24 \<and> minute dt < 60 \<and> second dt < 60 \<and>
      microsecond dt < 1000000)"

section \<open>Error manager\<close>

datatype ErrorSeverity = LOW | MEDIUM | HIGH | CRITICAL

fun severity_value :: "ErrorSeverity \<Rightarrow> string" where
  "severity_value LOW = ''low''"
| "severity_value MEDIUM = ''medium''"
| "severity_value HIGH = ''high''"
| "severity_value CRITICAL = ''critical''"

text \<open>
  What one call of \<^verbatim>\<open>handle_error\<close> reads from outside the program: the clock in
  \<^verbatim>\<open>_generate_error_id\<close>, the text of a fresh \<^verbatim>\<open>uuid.uuid4()\<close>, and the clock again in
  \<^verbatim>\<open>_get_timestamp\<close>.
\<close>

record entropy =
  id_clock :: datetime
  uuid4 :: string
  stamp_clock :: datetime

definition generate_error_id :: "entropy \<Rightarrow> string" where
  "generate_error_id en =
     (let timestamp = strftime_Ymd (id_clock en);
          unique_id = take 8 (uuid4 en)
      in ''error_'' @ timestamp @ ''_'' @ unique_id)"

datatype log_level = INFO | WARNING | ERROR

record log_record =
  level :: log_level
  log_message :: string
  extra_error_id :: string
  extra_error_type :: string
  extra_error_message :: string
  extra_severity :: string
  extra_context :: log_context
  exc_info :: bool

definition log_error :: "exn \<Rightarrow> ErrorSeverity \<Rightarrow> string \<Rightarrow> log_context option \<Rightarrow> log_record" where
  "log_error error severity error_id context =
     \<lparr>level = (if severity \<in> set [CRITICAL, HIGH] then ERROR
               else if severity = MEDIUM then WARNING else INFO),
      log_message = ''Error '' @ error_id @ '': '' @ exn_message error,
      extra_error_id = error_id,
      extra_error_type = class_name (exn_class error),
      extra_error_message = exn_message error,
      extra_severity = severity_value severity,
      extra_context = (case context of None \<Rightarrow> [] | Some c \<Rightarrow> if c = [] then [] else c),
      exc_info = (severity \<in> set [CRITICAL, HIGH])\<rparr>"

definition messages :: "(ErrorSeverity \<times> string) list" where
  "messages =
     [(LOW, ''A minor issue occurred. Please try again.''),
      (MEDIUM, ''An error occurred while processing your request.''),
      (HIGH, ''A serious error occurred. Please contact support.''),
      (CRITICAL, ''A critical system error occurred. Please contact support immediately.'')]"

definition get_default_message :: "ErrorSeverity \<Rightarrow> string" where
  "get_default_message severity =
     (case map_of messages severity of
        Some m \<Rightarrow> m
      | None \<Rightarrow> ''An unexpected error occurred.'')"

definition get_timestamp :: "datetime \<Rightarrow> string" where
  "get_timestamp utcnow = isoformat utcnow @ ''Z''"

text \<open>
  \<^verbatim>\<open>handle_error\<close> returns the response dictionary; the record it logs is returned
  beside it. \<^verbatim>\<open>user_message or default\<close> takes the default for \<^verbatim>\<open>None\<close> and for the
  empty string.
\<close>

definition handle_error ::
  "entropy \<Rightarrow> exn \<Rightarrow> ErrorSeverity \<Rightarrow> log_context option \<Rightarrow> string option \<Rightarrow> dict \<times> log_record" where
  "handle_error en error severity context user_message =
     (let error_id = generate_error_id en;
          logged = log_error error severity error_id context
      in ([(''error_id'', error_id),
           (''message'', (case user_message of
                            None \<Rightarrow> get_default_message severity
                          | Some m \<Rightarrow> if m = [] then get_default_message severity else m)),
           (''severity'', severity_value severity),
           (''timestamp'', get_timestamp (stamp_clock en)),
           (''type'', class_name (exn_class error))],
          logged))"

section \<open>Models\<close>

text \<open>
  The mapped classes of \<^verbatim>\<open>cms.models\<close>, one record per row. The columns
  \<^verbatim>\<open>created_at\<close> and \<^verbatim>\<open>updated_at\<close> are filled by the column defaults of the
  persistence layer and written by no code of the services; the rows leave them out.
\<close>

record user =
  usr_id :: nat
  email :: str
  username :: str
  password_hash :: str
  first_name :: str
  last_name :: str
  is_active :: bool
  is_staff :: bool
  is_superuser :: bool
  last_login :: "datetime option"

record category =
  cat_id :: nat
  cat_name :: str
  cat_slug :: str
  cat_description :: "str option"
  cat_is_active :: bool

record article =
  art_id :: nat
  art_title :: str
  art_slug :: str
  art_content :: str
  art_excerpt :: "str option"
  is_published :: bool
  published_at :: "datetime option"
  author_id :: nat
  art_category_id :: "nat option"

text \<open>\<^verbatim>\<open>" ".join(part for part in [first_name, last_name] if part)\<close>\<close>

definition full_name :: "user \<Rightarrow> str" where
  "full_name u =
     (case filter (\<lambda>part. part \<noteq> []) [first_name u, last_name u] of
        [] \<Rightarrow> []
      | [p] \<Rightarrow> p
      | p # q # _ \<Rightarrow> p @ ascii '' '' @ q)"

text \<open>\<^verbatim>\<open>Article.publish\<close> and \<^verbatim>\<open>Article.unpublish\<close>; \<open>utcnow\<close> is the clock's reading.\<close>

definition publish :: "datetime \<Rightarrow> article \<Rightarrow> article" where
  "publish utcnow self =
     (if \<not> is_published self
      then self\<lparr>is_published := True, published_at := Some utcnow\<rparr>
      else self)"

definition unpublish :: "article \<Rightarrow> article" where
  "unpublish self =
     (if is_published self
      then self\<lparr>is_published := False, published_at := None\<rparr>
      else self)"

section \<open>Repositories\<close>

text \<open>
  The store: one list of rows per table. The session commits at the end of every
  repository call (one request, one transaction), so a call maps a store to a store.
\<close>

record db =
  users :: "user list"
  categories :: "category list"
  articles :: "article list"

text \<open>The integer primary key of a new row: one more than the largest in the table.\<close>

definition next_id :: "nat list \<Rightarrow> nat" where
  "next_id ids = Suc (fold max ids 0)"

definition article_rows :: "db \<Rightarrow> slug_rows" where
  "article_rows s = map (\<lambda>a. (art_id a, art_slug a)) (articles s)"

definition category_rows :: "db \<Rightarrow> slug_rows" where
  "category_rows s = map (\<lambda>c. (cat_id c, cat_slug c)) (categories s)"

definition user_get_by_id :: "db \<Rightarrow> nat \<Rightarrow> user option" where
  "user_get_by_id s entity_id = find (\<lambda>u. usr_id u = entity_id) (users s)"

definition get_by_email :: "unicode \<Rightarrow> db \<Rightarrow> str \<Rightarrow> user option" where
  "get_by_email U s e = find (\<lambda>u. email u = lower U e) (users s)"

definition category_get_by_id :: "db \<Rightarrow> nat \<Rightarrow> category option" where
  "category_get_by_id s entity_id = find (\<lambda>c. cat_id c = entity_id) (categories s)"

definition article_get_by_id :: "db \<Rightarrow> nat \<Rightarrow> article option" where
  "article_get_by_id s entity_id = find (\<lambda>a. art_id a = entity_id) (articles s)"

text \<open>
  \<^verbatim>\<open>BaseRepository.create\<close>: the commit raises \<^verbatim>\<open>IntegrityError\<close> when a unique column
  (\<^verbatim>\<open>Article.slug\<close>; \<^verbatim>\<open>Category.name\<close> and \<^verbatim>\<open>Category.slug\<close>) repeats a stored value;
  the repository rolls back and raises \<^verbatim>\<open>DatabaseError\<close> in its place.
\<close>

definition integrity_details :: dict where
  "integrity_details = [(''error'', ''UNIQUE constraint failed'')]"

definition article_create :: "db \<Rightarrow> article \<Rightarrow> exn + db \<times> article" where
  "article_create s row =
     (if art_slug row \<in> set (map art_slug (articles s))
      then Inl \<lparr>exn_class = DatabaseError, exn_message = ''Failed to create Article'',
                exn_details = integrity_details\<rparr>
      else let entity = row\<lparr>art_id := next_id (map art_id (articles s))\<rparr>
           in Inr (s\<lparr>articles := articles s @ [entity]\<rparr>, entity))"

definition category_create :: "db \<Rightarrow> category \<Rightarrow> exn + db \<times> category" where
  "category_create s row =
     (if cat_slug row \<in> set (map cat_slug (categories s))
         \<or> cat_name row \<in> set (map cat_name (categories s))
      then Inl \<lparr>exn_class = DatabaseError, exn_message = ''Failed to create Category'',
                exn_details = integrity_details\<rparr>
      else let entity = row\<lparr>cat_id := next_id (map cat_id (categories s))\<rparr>
           in Inr (s\<lparr>categories := categories s @ [entity]\<rparr>, entity))"

text \<open>
  The keyword arguments of \<^verbatim>\<open>BaseRepository.update\<close>, for an article: a field is
  \<open>None\<close> when the key is absent from \<^verbatim>\<open>update_data\<close>.
\<close>

record article_update =
  upd_title :: "str option"
  upd_slug :: "str option"
  upd_content :: "str option"
  upd_excerpt :: "str option option"
  upd_category_id :: "nat option option"
  upd_is_published :: "bool option"
  upd_published_at :: "datetime option option"

definition no_update :: article_update where
  "no_update = \<lparr>upd_title = None, upd_slug = None, upd_content = None, upd_excerpt = None,
                 upd_category_id = None, upd_is_published = None, upd_published_at = None\<rparr>"

definition set_attrs :: "article \<Rightarrow> article_update \<Rightarrow> article" where
  "set_attrs entity kwargs =
     entity\<lparr>art_title := (case upd_title kwargs of None \<Rightarrow> art_title entity | Some v \<Rightarrow> v),
            art_slug := (case upd_slug kwargs of None \<Rightarrow> art_slug entity | Some v \<Rightarrow> v),
            art_content := (case upd_content kwargs of None \<Rightarrow> art_content entity | Some v \<Rightarrow> v),
            art_excerpt := (case upd_excerpt kwargs of None \<Rightarrow> art_excerpt entity | Some v \<Rightarrow> v),
            art_category_id :=
              (case upd_category_id kwargs of None \<Rightarrow> art_category_id entity | Some v \<Rightarrow> v),
            is_published :=
              (case upd_is_published kwargs of None \<Rightarrow> is_published entity | Some v \<Rightarrow> v),
            published_at :=
              (case upd_published_at kwargs of None \<Rightarrow> published_at entity | Some v \<Rightarrow> v)\<rparr>"

text \<open>
  \<^verbatim>\<open>BaseRepository.update\<close> on the articles: \<open>None\<close> for an unknown id; otherwise the
  attributes are set and the commit raises \<^verbatim>\<open>IntegrityError\<close> when another row holds the
  new slug, which is rolled back and raised as \<^verbatim>\<open>DatabaseError\<close>.
\<close>

definition article_update :: "db \<Rightarrow> nat \<Rightarrow> article_update \<Rightarrow> exn + db \<times> article option" where
  "article_update s entity_id kwargs =
     (case article_get_by_id s entity_id of
        None \<Rightarrow> Inr (s, None)
      | Some entity \<Rightarrow>
          let entity' = set_attrs entity kwargs
          in if art_slug entity' \<in>
                  set (map art_slug (filter (\<lambda>a. art_id a \<noteq> entity_id) (articles s)))
             then Inl \<lparr>exn_class = DatabaseError, exn_message = ''Failed to update Article'',
                       exn_details = integrity_details\<rparr>
             else Inr (s\<lparr>articles :=
                            map (\<lambda>a. if art_id a = entity_id then entity' else a) (articles s)\<rparr>,
                       Some entity'))"

definition user_update_last_login :: "db \<Rightarrow> nat \<Rightarrow> datetime \<Rightarrow> db" where
  "user_update_last_login s entity_id utcnow =
     s\<lparr>users := map (\<lambda>u. if usr_id u = entity_id then u\<lparr>last_login := Some utcnow\<rparr> else u)
                     (users s)\<rparr>"

section \<open>Services\<close>

text \<open>
  What the services take from outside the program: the Unicode tables, the HTML sanitizer
  (\<^verbatim>\<open>bleach.clean\<close> with the fixed allow-list), the password check (\<^verbatim>\<open>bcrypt.checkpw\<close>
  on two byte strings, \<open>Inl\<close> with the exception when it raises, as it does with
  \<^verbatim>\<open>ValueError\<close> for a hash it cannot read), the login schema
  (\<^verbatim>\<open>UserLoginSchema().load\<close>, \<open>Inl\<close> with its messages when it raises), the clock, the
  reads of \<^verbatim>\<open>handle_error\<close>, and what other transactions commit between the slug check
  and the insert of a creation (the identity when the request runs alone).
\<close>

record credentials =
  cred_email :: str
  cred_password :: str

type_synonym login_dict = "(string \<times> str) list"

record env =
  ucd :: unicode
  bleach_clean :: "str \<Rightarrow> str"
  checkpw :: "nat list \<Rightarrow> nat list \<Rightarrow> exn + bool"
  load_login :: "login_dict \<Rightarrow> string + credentials"
  utcnow :: datetime
  entropy :: entropy
  other_writers :: "db \<Rightarrow> db"

text \<open>\<^verbatim>\<open>str.strip()\<close> and \<^verbatim>\<open>d[key]\<close> on a dictionary.\<close>

definition strip :: "unicode \<Rightarrow> str \<Rightarrow> str" where
  "strip U s = rev (dropWhile (is_space U) (rev (dropWhile (is_space U) s)))"

definition getitem :: "dict \<Rightarrow> string \<Rightarrow> exn + string" where
  "getitem d key =
     (case map_of d key of
        None \<Rightarrow> Inl (raise (Builtin ''KeyError'') key)
      | Some v \<Rightarrow> Inr v)"

definition sanitize_html :: "env \<Rightarrow> str \<Rightarrow> str" where
  "sanitize_html ev content = (if content = [] then [] else bleach_clean ev content)"

text \<open>
  \<^verbatim>\<open>str.encode('utf-8')\<close>: one to four bytes for a code point, and
  \<^verbatim>\<open>UnicodeEncodeError\<close> for a text with a surrogate (\<open>D800\<close> to \<open>DFFF\<close>), which a JSON
  body can carry. The message of the exception, which also names the character and its
  position, is cut to its reason.
\<close>

definition is_surrogate :: "nat \<Rightarrow> bool" where
  "is_surrogate c = (55296 \<le> c \<and> c \<le> 57343)"

definition encode_char :: "nat \<Rightarrow> nat list" where
  "encode_char c =
     (if c < 128 then [c]
      else if c < 2048 then [192 + c div 64, 128 + c mod 64]
      else if c < 65536 then [224 + c div 4096, 128 + (c div 64) mod 64, 128 + c mod 64]
      else [240 + c div 262144, 128 + (c div 4096) mod 64, 128 + (c div 64) mod 64,
            128 + c mod 64])"

definition encode_utf8 :: "str \<Rightarrow> exn + nat list" where
  "encode_utf8 s =
     (if list_ex is_surrogate s
      then Inl (raise (Builtin ''UnicodeEncodeError'') ''surrogates not allowed'')
      else Inr (concat (map encode_char s)))"

text \<open>
  \<^verbatim>\<open>AuthenticationService._verify_password\<close>:
  \<^verbatim>\<open>return bcrypt.checkpw(password.encode('utf-8'), hashed.encode('utf-8'))\<close>.
  The arguments are evaluated from the left; each step may raise.
\<close>

definition verify_password :: "env \<Rightarrow> str \<Rightarrow> str \<Rightarrow> exn + bool" where
  "verify_password ev password hashed =
     (case encode_utf8 password of
        Inl e \<Rightarrow> Inl e
      | Inr p \<Rightarrow>
          (case encode_utf8 hashed of
             Inl e \<Rightarrow> Inl e
           | Inr h \<Rightarrow> checkpw ev p h))"

text \<open>
  The request payloads. A field is \<open>None\<close> when its key is absent; \<open>d_category_id\<close> is
  \<open>Some None\<close> for an explicit null.
\<close>

record article_data =
  d_title :: "str option"
  d_content :: "str option"
  d_excerpt :: "str option"
  d_category_id :: "nat option option"
  d_is_published :: "bool option"

record category_data =
  c_name :: "str option"
  c_description :: "str option"
  c_is_active :: "bool option"

text \<open>
  \<^verbatim>\<open>
    if category_id:
        category = self.category_repo.get_by_id(category_id)
        if not category or not category.is_active:
            raise ValidationError("Invalid category selected")
  \<close>
\<close>

definition category_rejected :: "db \<Rightarrow> nat option \<Rightarrow> bool" where
  "category_rejected s cid =
     (case cid of
        None \<Rightarrow> False
      | Some i \<Rightarrow>
          if i = 0 then False
          else (case category_get_by_id s i of
                  None \<Rightarrow> True
                | Some c \<Rightarrow> \<not> cat_is_active c))"

definition strip_or_none :: "unicode \<Rightarrow> str \<Rightarrow> str option" where
  "strip_or_none U s = (let t = strip U s in if t = [] then None else Some t)"

text \<open>The body of the \<^verbatim>\<open>try\<close> of \<^verbatim>\<open>ArticleService.create_article\<close>.\<close>

definition create_article_body ::
  "env \<Rightarrow> db \<Rightarrow> article_data \<Rightarrow> nat \<Rightarrow> (exn + article) \<times> db" where
  "create_article_body ev s data author =
     (case d_title data of
        None \<Rightarrow> (Inl (raise ValidationError ''Title is required''), s)
      | Some t \<Rightarrow>
     if t = [] then (Inl (raise ValidationError ''Title is required''), s)
     else
     (case d_content data of
        None \<Rightarrow> (Inl (raise ValidationError ''Content is required''), s)
      | Some c \<Rightarrow>
     if c = [] then (Inl (raise ValidationError ''Content is required''), s)
     else
       let slug = assign_slug (ucd ev) (article_rows s) None t;
           cid = (case d_category_id data of None \<Rightarrow> None | Some v \<Rightarrow> v)
       in if category_rejected s cid
          then (Inl (raise ValidationError ''Invalid category selected''), s)
          else
            let sanitized_content = sanitize_html ev c;
                s1 = other_writers ev s
            in (case article_create s1
                       \<lparr>art_id = 0,
                        art_title = strip (ucd ev) t,
                        art_slug = slug,
                        art_content = sanitized_content,
                        art_excerpt =
                          strip_or_none (ucd ev)
                            (case d_excerpt data of None \<Rightarrow> [] | Some e \<Rightarrow> e),
                        is_published =
                          (case d_is_published data of None \<Rightarrow> False | Some b \<Rightarrow> b),
                        published_at = None,
                        author_id = author,
                        art_category_id = cid\<rparr> of
                  Inl e \<Rightarrow> (Inl e, s1)
                | Inr (s2, created) \<Rightarrow>
                    if is_published created
                    then let created' = publish (utcnow ev) created
                         in (Inr created',
                             s2\<lparr>articles := map (\<lambda>a. if art_id a = art_id created'
                                                       then created' else a) (articles s2)\<rparr>)
                    else (Inr created, s2))))"

text \<open>
  \<^verbatim>\<open>create_article\<close> with its handler:
  \<^verbatim>\<open>
    except (ValidationError, DatabaseError) as e:
        error_response = error_manager.handle_error(
            e, ErrorSeverity.MEDIUM,
            context={"operation": "article_creation", "author_id": author_id})
        raise ValidationError(error_response["message"], details=error_response)
  \<close>
  The result is the outcome, the store and the log. On success the outcome is the new
  row, of which the returned dictionary shows the id, title, slug and publication flag.
\<close>

definition reraise_validation ::
  "entropy \<Rightarrow> exn \<Rightarrow> log_context \<Rightarrow> exn \<times> log_record list" where
  "reraise_validation en e context =
     (if exn_class e \<in> set [ValidationError, DatabaseError]
      then let (error_response, logged) = handle_error en e MEDIUM (Some context) None
           in (case getitem error_response ''message'' of
                 Inl key_error \<Rightarrow> (key_error, [logged])
               | Inr msg \<Rightarrow>
                   (\<lparr>exn_class = ValidationError, exn_message = msg,
                     exn_details = error_response\<rparr>, [logged]))
      else (e, []))"

definition create_article ::
  "env \<Rightarrow> db \<Rightarrow> article_data \<Rightarrow> nat \<Rightarrow> (exn + article) \<times> db \<times> log_record list" where
  "create_article ev s data author =
     (case create_article_body ev s data author of
        (Inr created, s') \<Rightarrow> (Inr created, s', [])
      | (Inl e, s') \<Rightarrow>
          let (e', logs) = reraise_validation (entropy ev) e
                 [(''operation'', ascii ''article_creation''),
                  (''author_id'', ascii (str_nat author))]
          in (Inl e', s', logs))"

text \<open>
  \<^verbatim>\<open>ArticleService.update_article\<close>. It has no handler: an exception leaves it as raised.
  The keyword arguments are built key by key from the payload; the publication flag is
  handled by
  \<^verbatim>\<open>
    if 'is_published' in article_data:
        is_published = bool(article_data['is_published'])
        update_data['is_published'] = is_published
        if is_published and not article.is_published:
            update_data['published_at'] = datetime.utcnow()
        elif not is_published and article.is_published:
            update_data['published_at'] = None
  \<close>
\<close>

definition may_edit :: "db \<Rightarrow> article \<Rightarrow> nat \<Rightarrow> bool" where
  "may_edit s art uid =
     (case user_get_by_id s uid of
        None \<Rightarrow> False
      | Some u \<Rightarrow> author_id art = uid \<or> is_staff u)"

definition update_data :: "env \<Rightarrow> db \<Rightarrow> nat \<Rightarrow> article \<Rightarrow> article_data \<Rightarrow> article_update" where
  "update_data ev s article_id art data =
     \<lparr>upd_title = map_option (strip (ucd ev)) (d_title data),
      upd_slug =
        (case d_title data of
           None \<Rightarrow> None
         | Some t \<Rightarrow>
             if strip (ucd ev) t \<noteq> art_title art
             then Some (assign_slug (ucd ev) (article_rows s) (Some article_id)
                          (strip (ucd ev) t))
             else None),
      upd_content = map_option (sanitize_html ev) (d_content data),
      upd_excerpt = map_option (strip_or_none (ucd ev)) (d_excerpt data),
      upd_category_id = d_category_id data,
      upd_is_published = d_is_published data,
      upd_published_at =
        (case d_is_published data of
           None \<Rightarrow> None
         | Some flag \<Rightarrow>
             if flag \<and> \<not> is_published art then Some (Some (utcnow ev))
             else if \<not> flag \<and> is_published art then Some None
             else None)\<rparr>"

definition update_article ::
  "env \<Rightarrow> db \<Rightarrow> nat \<Rightarrow> article_data \<Rightarrow> nat \<Rightarrow> (exn + article) \<times> db" where
  "update_article ev s article_id data uid =
     (case article_get_by_id s article_id of
        None \<Rightarrow> (Inl (raise BusinessLogicError ''Article not found''), s)
      | Some art \<Rightarrow>
          if \<not> may_edit s art uid
          then (Inl (raise BusinessLogicError
                       (''You don'' @ [CHR 0x27] @ ''t have permission to edit this article'')), s)
          else if (case d_category_id data of None \<Rightarrow> False | Some cid \<Rightarrow> category_rejected s cid)
          then (Inl (raise ValidationError ''Invalid category selected''), s)
          else (case article_update s article_id (update_data ev s article_id art data) of
                  Inl e \<Rightarrow> (Inl e, s)
                | Inr (s', None) \<Rightarrow>
                    (Inl (raise (Builtin ''AttributeError'')
                            (''NoneType object has no attribute id'')), s')
                | Inr (s', Some updated_article) \<Rightarrow> (Inr updated_article, s')))"

text \<open>\<^verbatim>\<open>CategoryService.create_category\<close>, body and handler.\<close>

definition create_category_body ::
  "env \<Rightarrow> db \<Rightarrow> category_data \<Rightarrow> (exn + category) \<times> db" where
  "create_category_body ev s data =
     (case c_name data of
        None \<Rightarrow> (Inl (raise ValidationError ''Category name is required''), s)
      | Some n \<Rightarrow>
     if n = [] then (Inl (raise ValidationError ''Category name is required''), s)
     else
       let slug = assign_slug (ucd ev) (category_rows s) None n;
           s1 = other_writers ev s
       in (case category_create s1
                  \<lparr>cat_id = 0,
                   cat_name = strip (ucd ev) n,
                   cat_slug = slug,
                   cat_description =
                     strip_or_none (ucd ev)
                       (case c_description data of None \<Rightarrow> [] | Some d \<Rightarrow> d),
                   cat_is_active = (case c_is_active data of None \<Rightarrow> True | Some b \<Rightarrow> b)\<rparr> of
             Inl e \<Rightarrow> (Inl e, s1)
           | Inr (s2, created) \<Rightarrow> (Inr created, s2)))"

definition create_category ::
  "env \<Rightarrow> db \<Rightarrow> category_data \<Rightarrow> (exn + category) \<times> db \<times> log_record list" where
  "create_category ev s data =
     (case create_category_body ev s data of
        (Inr created, s') \<Rightarrow> (Inr created, s', [])
      | (Inl e, s') \<Rightarrow>
          let (e', logs) = reraise_validation (entropy ev) e
                 [(''operation'', ascii ''category_creation'')]
          in (Inl e', s', logs))"

text \<open>
  \<^verbatim>\<open>AuthenticationService.authenticate_user\<close>. The body of the \<^verbatim>\<open>try\<close> returns the
  stored user or raises; \<^verbatim>\<open>validate_user_login\<close> turns a schema failure into a
  \<^verbatim>\<open>SecurityException\<close>. The handler catches \<^verbatim>\<open>AuthenticationError\<close> only: the
  \<^verbatim>\<open>SecurityException\<close> and whatever the password check raises leave as they are.
\<close>

definition validate_user_login :: "env \<Rightarrow> login_dict \<Rightarrow> exn + credentials" where
  "validate_user_login ev data =
     (case load_login ev data of
        Inl msgs \<Rightarrow>
          Inl \<lparr>exn_class = SecurityException, exn_message = ''Invalid input data'',
               exn_details = [(''validation_errors'', msgs)]\<rparr>
      | Inr validated \<Rightarrow> Inr validated)"

definition authenticate_user_body :: "env \<Rightarrow> db \<Rightarrow> login_dict \<Rightarrow> exn + user" where
  "authenticate_user_body ev s login_data =
     (case validate_user_login ev login_data of
        Inl e \<Rightarrow> Inl e
      | Inr validated_data \<Rightarrow>
          (case get_by_email (ucd ev) s (cred_email validated_data) of
             None \<Rightarrow> Inl (raise AuthenticationError ''Invalid email or password'')
           | Some u \<Rightarrow>
               if \<not> is_active u
               then Inl (raise AuthenticationError ''Account is deactivated'')
               else (case verify_password ev (cred_password validated_data) (password_hash u) of
                       Inl e \<Rightarrow> Inl e
                     | Inr verified \<Rightarrow>
                         if \<not> verified
                         then Inl (raise AuthenticationError ''Invalid email or password'')
                         else Inr u)))"

text \<open>The \<^verbatim>\<open>"user"\<close> entry of the dictionary that a successful login returns.\<close>

record user_info =
  info_id :: nat
  info_email :: str
  info_username :: str
  info_full_name :: str
  info_is_staff :: bool
  info_is_superuser :: bool

definition authenticate_user ::
  "env \<Rightarrow> db \<Rightarrow> login_dict \<Rightarrow> (exn + user_info) \<times> db \<times> log_record list" where
  "authenticate_user ev s login_data =
     (case authenticate_user_body ev s login_data of
        Inr u \<Rightarrow>
          (Inr \<lparr>info_id = usr_id u, info_email = email u, info_username = username u,
                info_full_name = full_name u, info_is_staff = is_staff u,
                info_is_superuser = is_superuser u\<rparr>,
           user_update_last_login s (usr_id u) (utcnow ev), [])
      | Inl e \<Rightarrow>
          if exn_class e = AuthenticationError
          then let (error_response, logged) =
                     handle_error (entropy ev) e MEDIUM
                       (Some [(''operation'', ascii ''user_authentication''),
                              (''email'', (case map_of login_data ''email'' of
                                             None \<Rightarrow> ascii ''None'' | Some v \<Rightarrow> v))])
                       (Some ''Authentication failed. Please check your credentials.'')
               in (case getitem error_response ''message'' of
                     Inl key_error \<Rightarrow> (Inl key_error, s, [logged])
                   | Inr msg \<Rightarrow>
                       (Inl \<lparr>exn_class = AuthenticationError, exn_message = msg,
                             exn_details = error_response\<rparr>, s, [logged]))
          else (Inl e, s, []))"

section \<open>Notions used in the statements\<close>

text \<open>
  What \<^verbatim>\<open>BaseRepository.update\<close> tests and writes: whether another row holds the slug of
  the changed row, and the table with the row replaced.
\<close>

definition slug_conflict :: "db \<Rightarrow> nat \<Rightarrow> article \<Rightarrow> bool" where
  "slug_conflict s i e' =
     (art_slug e' \<in> set (map art_slug (filter (\<lambda>a. art_id a \<noteq> i) (articles s))))"

definition replaced :: "db \<Rightarrow> nat \<Rightarrow> article \<Rightarrow> db" where
  "replaced s i e' = s\<lparr>articles := map (\<lambda>a. if art_id a = i then e' else a) (articles s)\<rparr>"

text \<open>
  The three ways in which a login with well-formed data fails while the password check,
  where it is reached, returns; and the exception that \<^verbatim>\<open>authenticate_user\<close> raises for
  them, as a function of what \<^verbatim>\<open>handle_error\<close> reads.
\<close>

datatype failure_cause = EmailNotRegistered | WrongPassword | AccountDeactivated

definition auth_failure :: "env \<Rightarrow> db \<Rightarrow> login_dict \<Rightarrow> failure_cause \<Rightarrow> bool" where
  "auth_failure ev s login_data cause =
     (case load_login ev login_data of
        Inl _ \<Rightarrow> False
      | Inr c \<Rightarrow>
          (case get_by_email (ucd ev) s (cred_email c) of
             None \<Rightarrow> cause = EmailNotRegistered
           | Some u \<Rightarrow>
               (cause = AccountDeactivated \<and> \<not> is_active u) \<or>
               (cause = WrongPassword \<and> is_active u \<and>
                verify_password ev (cred_password c) (password_hash u) = Inr False)))"

definition auth_error :: "entropy \<Rightarrow> exn" where
  "auth_error en =
     \<lparr>exn_class = AuthenticationError,
      exn_message = ''Authentication failed. Please check your credentials.'',
      exn_details =
        [(''error_id'', generate_error_id en),
         (''message'', ''Authentication failed. Please check your credentials.''),
         (''severity'', ''medium''),
         (''timestamp'', get_timestamp (stamp_clock en)),
         (''type'', ''AuthenticationError'')]\<rparr>"

text \<open>
  The exception that \<^verbatim>\<open>create_article\<close> raises when the repository reports a
  \<^verbatim>\<open>DatabaseError\<close>.
\<close>

definition storage_error :: "entropy \<Rightarrow> exn" where
  "storage_error en =
     \<lparr>exn_class = ValidationError,
      exn_message = ''An error occurred while processing your request.'',
      exn_details =
        [(''error_id'', generate_error_id en),
         (''message'', ''An error occurred while processing your request.''),
         (''severity'', ''medium''),
         (''timestamp'', get_timestamp (stamp_clock en)),
         (''type'', ''DatabaseError'')]\<rparr>"

section \<open>Sample data\<close>

text \<open>
  An excerpt of the Unicode tables, for texts whose only code points above 127 are the
  letters \<open>E acute\<close> (201, which lowers to 233) and \<open>e acute\<close> (233) and the no-break
  space (160).
\<close>

definition unicode_excerpt :: unicode where
  "unicode_excerpt =
     \<lparr>uni_lower = (\<lambda>pre c post. if c = 201 then [233] else [c]),
      uni_isalnum = (\<lambda>c. c = 201 \<or> c = 233),
      uni_isspace = (\<lambda>c. c = 160)\<rparr>"

text \<open>Two tables with the same slugs once the row 4 is set aside.\<close>

definition hello_rows :: slug_rows where
  "hello_rows = [(1, ascii ''hello-world''), (2, ascii ''hello-world-1''), (3, ascii ''other'')]"

definition hello_rows' :: slug_rows where
  "hello_rows' =
     [(7, ascii ''hello-world-1''), (8, ascii ''other''), (9, ascii ''hello-world''),
      (4, ascii ''gone'')]"

text \<open>
  A store like the fixtures of the test suite, with a deactivated user beside the active
  one and a draft beside the published article; an environment that runs a request alone,
  and one in which another transaction commits an article with the slug \<open>hello-world\<close>
  between the slug check and the insert. The sample password check accepts a password
  whose bytes follow the prefix \<open>bcrypt:\<close> in the stored hash.
\<close>

definition christmas :: datetime where
  "christmas = \<lparr>year = 2023, month = 12, day = 25, hour = 10, minute = 30, second = 45,
                 microsecond = 0\<rparr>"

definition boxing_day :: datetime where
  "boxing_day = \<lparr>year = 2023, month = 12, day = 26, hour = 8, minute = 15, second = 0,
                  microsecond = 1234\<rparr>"

definition published_row :: article where
  "published_row =
     \<lparr>art_id = 1, art_title = ascii ''Test Article'', art_slug = ascii ''test-article'',
      art_content = ascii ''This is a test article content.'',
      art_excerpt = Some (ascii ''Test excerpt''),
      is_published = True, published_at = Some christmas, author_id = 1,
      art_category_id = Some 1\<rparr>"

definition draft_row :: article where
  "draft_row =
     \<lparr>art_id = 2, art_title = ascii ''Draft Article'', art_slug = ascii ''draft-article'',
      art_content = ascii ''Draft content'', art_excerpt = None,
      is_published = False, published_at = None, author_id = 1,
      art_category_id = None\<rparr>"

definition test_user :: user where
  "test_user =
     \<lparr>usr_id = 1, email = ascii ''test@example.com'', username = ascii ''testuser'',
      password_hash = ascii ''bcrypt:TestPass123!'', first_name = ascii ''Test'',
      last_name = ascii ''User'',
      is_active = True, is_staff = False, is_superuser = False, last_login = None\<rparr>"

definition gone_user :: user where
  "gone_user =
     \<lparr>usr_id = 2, email = ascii ''gone@example.com'', username = ascii ''gone'',
      password_hash = ascii ''bcrypt:OldPass123!'', first_name = [], last_name = [],
      is_active = False, is_staff = False, is_superuser = False, last_login = None\<rparr>"

definition sample_db :: db where
  "sample_db =
     \<lparr>users =
        [test_user, gone_user],
      categories =
        [\<lparr>cat_id = 1, cat_name = ascii ''Technology'', cat_slug = ascii ''technology'',
          cat_description = Some (ascii ''Technology related articles''),
          cat_is_active = True\<rparr>],
      articles = [published_row, draft_row]\<rparr>"

definition sample_env :: env where
  "sample_env =
     \<lparr>ucd = unicode_excerpt,
      bleach_clean = (\<lambda>content. content),
      checkpw = (\<lambda>password hashed. Inr (hashed = ascii ''bcrypt:'' @ password)),
      load_login = (\<lambda>data.
        case map_of data ''email'' of
          None \<Rightarrow> Inl ''email: Missing data for required field.''
        | Some e \<Rightarrow>
            (case map_of data ''password'' of
               None \<Rightarrow> Inl ''password: Missing data for required field.''
             | Some p \<Rightarrow> Inr \<lparr>cred_email = e, cred_password = p\<rparr>)),
      utcnow = boxing_day,
      entropy = \<lparr>id_clock = boxing_day, uuid4 = ''0f8fad5b-d9cb-469f-a165-70867728950e'',
                 stamp_clock = boxing_day\<rparr>,
      other_writers = (\<lambda>s. s)\<rparr>"

definition rival_row :: article where
  "rival_row =
     \<lparr>art_id = 3, art_title = ascii ''Hello World'', art_slug = ascii ''hello-world'',
      art_content = ascii ''First!'', art_excerpt = None, is_published = False,
      published_at = None, author_id = 1, art_category_id = None\<rparr>"

definition rival_env :: env where
  "rival_env = sample_env\<lparr>other_writers := (\<lambda>s. s\<lparr>articles := articles s @ [rival_row]\<rparr>)\<rparr>"

definition hello_data :: article_data where
  "hello_data =
     \<lparr>d_title = Some (ascii ''Hello, World!''), d_content = Some (ascii ''Hi''),
      d_excerpt = None, d_category_id = None, d_is_published = Some True\<rparr>"

definition flag_only :: "bool option \<Rightarrow> article_data" where
  "flag_only f =
     \<lparr>d_title = None, d_content = None, d_excerpt = None, d_category_id = None,
      d_is_published = f\<rparr>"

definition retitled :: article_data where
  "retitled =
     \<lparr>d_title = Some (ascii ''A New Title''), d_content = Some (ascii ''Rewritten''),
      d_excerpt = Some (ascii '' ''), d_category_id = Some None, d_is_published = None\<rparr>"

definition unknown_login :: login_dict where
  "unknown_login =
     [(''email'', ascii ''nobody@example.com''), (''password'', ascii ''TestPass123!'')]"

definition wrong_password_login :: login_dict where
  "wrong_password_login =
     [(''email'', ascii ''test@example.com''), (''password'', ascii ''wrong'')]"

definition deactivated_login :: login_dict where
  "deactivated_login =
     [(''email'', ascii ''gone@example.com''), (''password'', ascii ''OldPass123!'')]"

text \<open>
  Two logins with the password that the JSON text \<^verbatim>\<open>"\ud800"\<close> decodes to, one lone
  surrogate: for the registered, active account and for an address nobody has.
\<close>

definition surrogate_login :: login_dict where
  "surrogate_login = [(''email'', ascii ''test@example.com''), (''password'', [55296])]"

definition surrogate_unknown_login :: login_dict where
  "surrogate_unknown_login =
     [(''email'', ascii ''nobody@example.com''), (''password'', [55296])]"

text \<open>A store whose one category has a slug of 100 characters, and a name that
  normalizes to it.\<close>

definition long_name_db :: db where
  "long_name_db =
     \<lparr>users = [],
      categories =
        [\<lparr>cat_id = 1, cat_name = replicate 100 65, cat_slug = replicate 100 97,
          cat_description = None, cat_is_active = True\<rparr>],
      articles = []\<rparr>"

definition long_name_data :: category_data where
  "long_name_data =
     \<lparr>c_name = Some (replicate 100 97), c_description = None, c_is_active = None\<rparr>"

section \<open>Properties of slug normalization and assignment\<close>

lemma remove_special_filter: "remove_special U s = filter (code_keep U) s"
  by (induction s) (auto simp: is_special_def code_keep_def is_word_def)

lemma squeeze_non_hyphen: "c \<noteq> hyphen \<Longrightarrow> squeeze_hyphens (c # s) = c # squeeze_hyphens s"
  by (cases s) simp_all

lemma squeeze_run:
  "squeeze_hyphens (hyphen # map (\<lambda>c. if is_sep U c then hyphen else c) cs) =
   hyphen # squeeze_hyphens (map (\<lambda>c. if is_sep U c then hyphen else c) (dropWhile (is_sep U) cs))"
proof (induction cs)
  case Nil
  show ?case by simp
next
  case (Cons d ds)
  show ?case
  proof (cases "is_sep U d")
    case True
    with Cons show ?thesis by simp
  next
    case False
    then have "d \<noteq> hyphen" by (auto simp: is_sep_def)
    with False show ?thesis by simp
  qed
qed

lemma collapse_seps_squeeze:
  "collapse_seps U s = squeeze_hyphens (map (\<lambda>c. if is_sep U c then hyphen else c) s)"
proof (induction U s rule: collapse_seps.induct)
  case (1 U)
  show ?case by simp
next
  case (2 U c cs)
  show ?case
  proof (cases "is_sep U c")
    case True
    with 2 show ?thesis by (simp add: squeeze_run)
  next
    case False
    then have "c \<noteq> hyphen" by (auto simp: is_sep_def)
    with False 2 show ?thesis by (simp add: squeeze_non_hyphen)
  qed
qed

lemma rev_dropWhile_rev:
  "rev (dropWhile P (rev s)) = take (length s - length (takeWhile P (rev s))) s"
proof -
  have "rev s = takeWhile P (rev s) @ dropWhile P (rev s)" by simp
  then have "s = rev (dropWhile P (rev s)) @ rev (takeWhile P (rev s))"
    by (metis rev_append rev_rev_ident)
  then have "take (length s - length (takeWhile P (rev s))) s =
      take (length (rev (dropWhile P (rev s))))
        (rev (dropWhile P (rev s)) @ rev (takeWhile P (rev s)))"
    by (metis add_diff_cancel_right' length_append length_rev)
  then show ?thesis by simp
qed

lemma strip_hyphens_trimmed: "strip_hyphens s = trimmed s"
proof -
  let ?P = "\<lambda>c. c = hyphen"
  let ?rest = "drop (length (takeWhile ?P s)) s"
  have r: "dropWhile ?P s = ?rest" by (rule dropWhile_eq_drop)
  have "strip_hyphens s = rev (dropWhile ?P (rev ?rest))"
    by (simp only: strip_hyphens_def r)
  also have "\<dots> = take (length ?rest - length (takeWhile ?P (rev ?rest))) ?rest"
    by (rule rev_dropWhile_rev)
  also have "\<dots> = trimmed s"
    by (simp only: trimmed_def Let_def)
  finally show ?thesis .
qed

lemma generate_slug_spec: "generate_slug U text = spec_normalize U (code_keep U) text"
  by (simp add: generate_slug_def spec_normalize_def remove_special_filter collapse_seps_squeeze
      strip_hyphens_trimmed)

text \<open>
  With the sample tables, letters and spaces beyond ASCII are treated as the ASCII ones:
  \<open>Caf\<close> followed by \<open>e acute\<close> keeps its last letter, and a no-break space separates.
\<close>

lemma generate_slug_beyond_ascii:
  "generate_slug unicode_excerpt (ascii ''Caf'' @ [233]) = ascii ''caf'' @ [233] \<and>
   generate_slug unicode_excerpt (ascii ''a'' @ [160] @ ascii ''b '' @ [201]) =
     ascii ''a-b-'' @ [233]"
  by code_simp

lemma ensure_unique_result:
  "\<not> slug_exists rows (ensure_unique rows e b slug counter) e \<and>
   (\<not> slug_exists rows slug e \<longrightarrow> ensure_unique rows e b slug counter = slug) \<and>
   (slug_exists rows slug e \<longrightarrow>
      (\<exists>k\<ge>counter. ensure_unique rows e b slug counter = suffixed b k \<and>
         (\<forall>j. counter \<le> j \<and> j < k \<longrightarrow> slug_exists rows (suffixed b j) e)))"
proof (induction rows e b slug counter rule: ensure_unique.induct)
  case (1 rows e b slug counter)
  show ?case
  proof (cases "slug_exists rows slug e")
    case False
    then show ?thesis by (simp add: ensure_unique.simps [of rows e b slug counter])
  next
    case True
    let ?r = "ensure_unique rows e b (suffixed b counter) (Suc counter)"
    have r: "ensure_unique rows e b slug counter = ?r"
      using True by (simp add: ensure_unique.simps [of rows e b slug counter])
    from "1.IH" [OF True]
    have free: "\<not> slug_exists rows ?r e"
      and fresh: "\<not> slug_exists rows (suffixed b counter) e \<Longrightarrow> ?r = suffixed b counter"
      and rest: "slug_exists rows (suffixed b counter) e \<Longrightarrow>
         \<exists>k\<ge>Suc counter. ?r = suffixed b k \<and>
                (\<forall>j. Suc counter \<le> j \<and> j < k \<longrightarrow> slug_exists rows (suffixed b j) e)"
      by simp_all
    have "\<exists>k\<ge>counter. ?r = suffixed b k \<and>
            (\<forall>j. counter \<le> j \<and> j < k \<longrightarrow> slug_exists rows (suffixed b j) e)"
    proof (cases "slug_exists rows (suffixed b counter) e")
      case False
      with fresh have "?r = suffixed b counter" by simp
      then show ?thesis by (auto intro!: exI [of _ counter])
    next
      case taken: True
      with rest obtain k where k: "Suc counter \<le> k" "?r = suffixed b k"
        "\<forall>j. Suc counter \<le> j \<and> j < k \<longrightarrow> slug_exists rows (suffixed b j) e"
        by auto
      have "\<forall>j. counter \<le> j \<and> j < k \<longrightarrow> slug_exists rows (suffixed b j) e"
      proof (intro allI impI)
        fix j assume j: "counter \<le> j \<and> j < k"
        show "slug_exists rows (suffixed b j) e"
        proof (cases "j = counter")
          case True
          with taken show ?thesis by simp
        next
          case False
          with j have "Suc counter \<le> j \<and> j < k" by simp
          with k(3) show ?thesis by blast
        qed
      qed
      with k(1,2) show ?thesis by (auto intro!: exI [of _ k])
    qed
    with free True r show ?thesis by simp
  qed
qed

lemma least_unique:
  fixes P :: "nat \<Rightarrow> bool"
  assumes "\<not> P k" "\<forall>j. c \<le> j \<and> j < k \<longrightarrow> P j" "c \<le> k"
    and "\<not> P k'" "\<forall>j. c \<le> j \<and> j < k' \<longrightarrow> P j" "c \<le> k'"
  shows "k = k'"
  using assms by (meson linorder_neqE_nat)

lemma ensure_unique_cong:
  assumes same: "\<And>s. slug_exists rows s e = slug_exists rows' s e'"
  shows "ensure_unique rows e b slug counter = ensure_unique rows' e' b slug counter"
proof (cases "slug_exists rows slug e")
  case False
  with same show ?thesis
    by (simp add: ensure_unique.simps [of _ _ b slug counter])
next
  case True
  from ensure_unique_result [of rows e b slug counter] True
  obtain k where k: "counter \<le> k" "ensure_unique rows e b slug counter = suffixed b k"
    "\<forall>j. counter \<le> j \<and> j < k \<longrightarrow> slug_exists rows (suffixed b j) e"
    "\<not> slug_exists rows (suffixed b k) e"
    by metis
  from True same have "slug_exists rows' slug e'" by simp
  with ensure_unique_result [of rows' e' b slug counter]
  obtain k' where k': "counter \<le> k'" "ensure_unique rows' e' b slug counter = suffixed b k'"
    "\<forall>j. counter \<le> j \<and> j < k' \<longrightarrow> slug_exists rows' (suffixed b j) e'"
    "\<not> slug_exists rows' (suffixed b k') e'"
    by metis
  have "k = k'"
    by (rule least_unique [of "\<lambda>j. slug_exists rows (suffixed b j) e" k counter k'])
       (use k k' same in simp_all)
  with k(2) k'(2) show ?thesis by simp
qed



lemma slug_exists_visible:
  "exclude_id \<noteq> Some 0 \<Longrightarrow>
     slug_exists rows s exclude_id \<longleftrightarrow> s \<in> visible_slugs rows exclude_id"
  by (cases exclude_id) (force simp: slug_exists_iff visible_slugs_def)+

text \<open>
  Claim C1. For every candidate text and every table, with \<open>S\<close> the slugs of the rows
  other than the one named by \<open>exclude_id\<close>: slug assignment returns a slug outside \<open>S\<close>;
  it is the normalized base slug when that is free, and otherwise the base slug with the
  suffix \<open>-k\<close> for the least \<open>k \<ge> 1\<close> whose candidate is free; and any call against a
  table with the same \<open>S\<close> returns the same slug. Primary keys start at 1, so
  \<open>exclude_id\<close> is not 0.
\<close>

theorem assign_slug_correct:
  assumes "exclude_id \<noteq> Some 0"
  shows "assign_slug U rows exclude_id text \<notin> visible_slugs rows exclude_id \<and>
    (generate_slug U text \<notin> visible_slugs rows exclude_id \<longrightarrow>
       assign_slug U rows exclude_id text = generate_slug U text) \<and>
    (generate_slug U text \<in> visible_slugs rows exclude_id \<longrightarrow>
       (\<exists>k\<ge>1. assign_slug U rows exclude_id text = suffixed (generate_slug U text) k \<and>
          (\<forall>j. 1 \<le> j \<and> j < k \<longrightarrow>
             suffixed (generate_slug U text) j \<in> visible_slugs rows exclude_id))) \<and>
    (\<forall>rows' exclude_id'. exclude_id' \<noteq> Some 0 \<and>
         visible_slugs rows' exclude_id' = visible_slugs rows exclude_id \<longrightarrow>
       assign_slug U rows' exclude_id' text = assign_slug U rows exclude_id text)"
proof -
  let ?B = "generate_slug U text"
  note vis = slug_exists_visible [OF assms, symmetric]
  from ensure_unique_result [of rows exclude_id ?B ?B 1]
  have "assign_slug U rows exclude_id text \<notin> visible_slugs rows exclude_id"
    and "?B \<notin> visible_slugs rows exclude_id \<longrightarrow> assign_slug U rows exclude_id text = ?B"
    and "?B \<in> visible_slugs rows exclude_id \<longrightarrow>
       (\<exists>k\<ge>1. assign_slug U rows exclude_id text = suffixed ?B k \<and>
          (\<forall>j. 1 \<le> j \<and> j < k \<longrightarrow> suffixed ?B j \<in> visible_slugs rows exclude_id))"
    unfolding vis assign_slug_def Let_def by blast+
  moreover have "assign_slug U rows' e' text = assign_slug U rows exclude_id text"
    if "e' \<noteq> Some 0" "visible_slugs rows' e' = visible_slugs rows exclude_id" for rows' e'
    unfolding assign_slug_def Let_def
    by (rule ensure_unique_cong) (simp add: slug_exists_visible that assms)
  ultimately show ?thesis by blast
qed

theorem assign_slug_correct_witness:
  "(None :: nat option) \<noteq> Some 0 \<and>
   generate_slug unicode_excerpt (ascii ''Hello, World!'') \<in> visible_slugs hello_rows None \<and>
   assign_slug unicode_excerpt hello_rows None (ascii ''Hello, World!'')
     \<notin> visible_slugs hello_rows None \<and>
   assign_slug unicode_excerpt hello_rows None (ascii ''Hello, World!'')
     = ascii ''hello-world-2'' \<and>
   generate_slug unicode_excerpt (ascii ''Fresh Title'') \<notin> visible_slugs hello_rows None \<and>
   assign_slug unicode_excerpt hello_rows None (ascii ''Fresh Title'')
     = generate_slug unicode_excerpt (ascii ''Fresh Title'') \<and>
   visible_slugs hello_rows' (Some 4) = visible_slugs hello_rows None \<and>
   assign_slug unicode_excerpt hello_rows' (Some 4) (ascii ''Hello, World!'')
     = assign_slug unicode_excerpt hello_rows None (ascii ''Hello, World!'')"
proof -
  let ?U = unicode_excerpt
  let ?hello = "ascii ''Hello, World!''"
  let ?fresh = "ascii ''Fresh Title''"
  have h: "(None :: nat option) \<noteq> Some 0" by simp
  have h': "Some (4::nat) \<noteq> Some 0" by simp
  have taken: "generate_slug ?U ?hello \<in> visible_slugs hello_rows None" by code_simp
  have free: "generate_slug ?U ?fresh \<notin> visible_slugs hello_rows None" by code_simp
  have same: "visible_slugs hello_rows' (Some 4) = visible_slugs hello_rows None" by code_simp
  have val: "assign_slug ?U hello_rows None ?hello = ascii ''hello-world-2''" by code_simp
  from assign_slug_correct [OF h, of ?U hello_rows ?hello] h' same
  have "assign_slug ?U hello_rows None ?hello \<notin> visible_slugs hello_rows None"
    and "assign_slug ?U hello_rows' (Some 4) ?hello = assign_slug ?U hello_rows None ?hello"
    by blast+
  moreover from assign_slug_correct [OF h, of ?U hello_rows ?fresh] free
  have "assign_slug ?U hello_rows None ?fresh = generate_slug ?U ?fresh" by blast
  ultimately show ?thesis using h taken free same val by blast
qed

text \<open>
  Claim C3, as amended. Slug normalization maps every text to its lowercase form with
  every character that is not alphanumeric, an underscore, whitespace or a hyphen
  stripped, runs of whitespace and hyphens collapsed to one hyphen, leading and trailing
  hyphens trimmed, and the result truncated to 100 characters; it maps
  \<open>Hello, World!\<close> to \<open>hello-world\<close>. Lowercase, alphanumeric and whitespace are those of
  \<^verbatim>\<open>str.lower\<close>, \<^verbatim>\<open>str.isalnum\<close> and \<^verbatim>\<open>str.isspace\<close>, whatever the Unicode tables.
  The truncation comes last: a slug cut at a separator ends in a hyphen.
\<close>

theorem generate_slug_normalizes:
  "generate_slug U text = spec_normalize U (code_keep U) text \<and>
   generate_slug U (ascii ''Hello, World!'') = ascii ''hello-world'' \<and>
   generate_slug U (ascii '' --Hello,   World! -- x_y  Z9-- '') = ascii ''hello-world-x_y-z9'' \<and>
   generate_slug U (replicate 150 97) = replicate 100 97 \<and>
   generate_slug U (replicate 99 97 @ ascii '' b'') = replicate 99 97 @ ascii ''-''"
proof (intro conjI)
  show "generate_slug U text = spec_normalize U (code_keep U) text"
    by (rule generate_slug_spec)
  show "generate_slug U (ascii ''Hello, World!'') = ascii ''hello-world''"
    by code_simp
  show "generate_slug U (ascii '' --Hello,   World! -- x_y  Z9-- '') = ascii ''hello-world-x_y-z9''"
    by code_simp
  show "generate_slug U (replicate 150 97) = replicate 100 97"
    by code_simp
  show "generate_slug U (replicate 99 97 @ ascii '' b'') = replicate 99 97 @ ascii ''-''"
    by code_simp
qed

text \<open>
  Claim C3 as stated fails on a text with an underscore: the class \<^verbatim>\<open>\w\<close> of the
  first substitution keeps it, where the specification strips it.
\<close>

theorem generate_slug_keeps_underscore:
  "generate_slug unicode_excerpt (ascii ''a_b'') \<noteq>
   spec_normalize unicode_excerpt (spec_keep unicode_excerpt) (ascii ''a_b'')"
  by code_simp

text \<open>
  Claim C5 fails on the code: the base slug is cut to 100 characters before the suffix is
  appended, so a base of 100 characters that is taken comes back 102 characters long.
\<close>

theorem suffixed_slug_exceeds_limit:
  "length (assign_slug unicode_excerpt [(1, replicate 100 97)] None (replicate 100 97)) = 102 \<and>
   map_sum exn_class (\<lambda>c. length (cat_slug c))
     (fst (create_category sample_env long_name_db long_name_data)) = Inr 102"
  by code_simp

section \<open>Properties of the error manager\<close>

lemma fits_append: "fits p s \<Longrightarrow> fits q t \<Longrightarrow> fits (p @ q) (s @ t)"
  by (induction p s rule: fits.induct) auto

lemma fits_digits: "length s = w \<Longrightarrow> list_all is_digit s \<Longrightarrow> fits (replicate w CHR ''d'') s"
  by (induction s arbitrary: w) auto

lemma str_nat_digits: "list_all is_digit (str_nat n)"
proof (induction n rule: str_nat.induct)
  case (1 n)
  have d: "is_digit (char_of (48 + k))" if "k < 10" for k :: nat
    using that by (simp add: is_digit_def)
  show ?case
  proof (cases "n < 10")
    case True
    then show ?thesis by (simp add: str_nat.simps [of n] d)
  next
    case False
    with 1 show ?thesis by (simp add: str_nat.simps [of n] d)
  qed
qed

lemma length_str_nat: "n < 10 ^ w \<Longrightarrow> 0 < w \<Longrightarrow> length (str_nat n) \<le> w"
proof (induction n arbitrary: w rule: str_nat.induct)
  case (1 n)
  show ?case
  proof (cases "n < 10")
    case True
    with "1.prems" show ?thesis by (simp add: str_nat.simps [of n])
  next
    case False
    with "1.prems" obtain v where w: "w = Suc v" by (cases w) auto
    with False "1.prems" have "0 < v" by (cases v) auto
    moreover from w "1.prems" have "n div 10 < 10 ^ v"
      by (simp add: less_mult_imp_div_less mult.commute)
    ultimately have "length (str_nat (n div 10)) \<le> v"
      using "1.IH" [OF False] by simp
    with False w show ?thesis by (simp add: str_nat.simps [of n])
  qed
qed

lemma zero_pad_fits: "n < 10 ^ w \<Longrightarrow> 0 < w \<Longrightarrow> fits (replicate w CHR ''d'') (zero_pad w n)"
proof (rule fits_digits)
  assume "n < 10 ^ w" "0 < w"
  then show "length (zero_pad w n) = w"
    using length_str_nat [of n w] by (simp add: zero_pad_def)
  have "is_digit CHR ''0''" by (simp add: is_digit_def)
  then have "list_all is_digit (replicate (w - length (str_nat n)) CHR ''0'')"
    by (simp add: list_all_iff)
  then show "list_all is_digit (zero_pad w n)"
    by (simp add: zero_pad_def str_nat_digits)
qed

lemma isoformat_fits:
  assumes "valid_datetime dt"
  shows "fits (''dddd-dd-ddTdd:dd:dd'' @ (if microsecond dt \<noteq> 0 then ''.dddddd'' else []))
              (isoformat dt)"
proof -
  from assms have y: "fits (replicate 4 CHR ''d'') (zero_pad 4 (year dt))"
    and mo: "fits (replicate 2 CHR ''d'') (zero_pad 2 (month dt))"
    and d: "fits (replicate 2 CHR ''d'') (zero_pad 2 (day dt))"
    and h: "fits (replicate 2 CHR ''d'') (zero_pad 2 (hour dt))"
    and mi: "fits (replicate 2 CHR ''d'') (zero_pad 2 (minute dt))"
    and s: "fits (replicate 2 CHR ''d'') (zero_pad 2 (second dt))"
    and us: "fits (replicate 6 CHR ''d'') (zero_pad 6 (microsecond dt))"
    by (simp_all add: valid_datetime_def zero_pad_fits del: replicate.simps)
  have lit: "fits ''-'' ''-''" "fits ''T'' ''T''" "fits '':'' '':''" "fits ''.'' ''.''" "fits [] []"
    by simp_all
  have frac: "fits (if microsecond dt \<noteq> 0 then ''.dddddd'' else [])
                   (if microsecond dt \<noteq> 0 then ''.'' @ zero_pad 6 (microsecond dt) else [])"
    using fits_append [OF lit(4) us] by (simp add: numeral_eq_Suc)
  have "fits (replicate 4 CHR ''d'' @ ''-'' @ replicate 2 CHR ''d'' @ ''-'' @ replicate 2 CHR ''d''
          @ ''T'' @ replicate 2 CHR ''d'' @ '':'' @ replicate 2 CHR ''d'' @ '':''
          @ replicate 2 CHR ''d'' @ (if microsecond dt \<noteq> 0 then ''.dddddd'' else []))
         (isoformat dt)"
    unfolding isoformat_def
    by (intro fits_append y mo d h mi s lit frac)
  then show ?thesis by (simp add: numeral_eq_Suc)
qed


text \<open>
  Claim C8, as amended. For every error, severity, context and optional user message,
  \<^verbatim>\<open>handle_error\<close> returns a record with exactly the keys \<open>error_id\<close>, \<open>message\<close>,
  \<open>severity\<close>, \<open>timestamp\<close>, \<open>type\<close>; the message is the caller's user message when a
  non-empty one is given, and otherwise (none, or the empty string) the fixed default of
  the severity, one exact string for each of the four levels; the context reaches the
  log record and has no influence on the returned record.
\<close>

theorem handle_error_response:
  "map fst (fst (handle_error en error severity context user_message)) =
     [''error_id'', ''message'', ''severity'', ''timestamp'', ''type''] \<and>
   map_of (fst (handle_error en error severity context user_message)) ''message'' =
     Some (case user_message of
             None \<Rightarrow> get_default_message severity
           | Some m \<Rightarrow> if m = [] then get_default_message severity else m) \<and>
   get_default_message LOW = ''A minor issue occurred. Please try again.'' \<and>
   get_default_message MEDIUM = ''An error occurred while processing your request.'' \<and>
   get_default_message HIGH = ''A serious error occurred. Please contact support.'' \<and>
   get_default_message CRITICAL =
     ''A critical system error occurred. Please contact support immediately.'' \<and>
   fst (handle_error en error severity context' user_message) =
     fst (handle_error en error severity context user_message) \<and>
   extra_context (snd (handle_error en error severity (Some c) user_message)) = c"
  by (simp add: handle_error_def Let_def get_default_message_def messages_def log_error_def)

text \<open>
  Claim C8 as stated fails for a user message that is given and empty:
  \<^verbatim>\<open>user_message or self._get_default_message(severity)\<close> takes the default.
\<close>

theorem handle_error_empty_user_message:
  "map_of (fst (handle_error
      \<lparr>id_clock = \<lparr>year = 2023, month = 12, day = 25, hour = 10, minute = 30, second = 45,
                   microsecond = 0\<rparr>,
       uuid4 = ''0f8fad5b-d9cb-469f-a165-70867728950e'',
       stamp_clock = \<lparr>year = 2023, month = 12, day = 25, hour = 10, minute = 30, second = 45,
                      microsecond = 0\<rparr>\<rparr>
      (raise ValidationError ''Invalid email format'') MEDIUM None (Some []))) ''message''
   \<noteq> Some []"
  by (simp add: handle_error_def Let_def get_default_message_def messages_def)

text \<open>
  Claim C9, as amended. The timestamp of every record returned by \<^verbatim>\<open>handle_error\<close> is
  the clock's reading in ISO format followed by \<open>Z\<close>: \<open>YYYY-MM-DDTHH:MM:SSZ\<close> when the
  reading has no microseconds, and \<open>YYYY-MM-DDTHH:MM:SS.ffffffZ\<close>, with six digits of
  fraction, when it has.
\<close>

theorem handle_error_timestamp:
  assumes "valid_datetime (stamp_clock en)"
  shows "map_of (fst (handle_error en error severity context user_message)) ''timestamp'' =
           Some (get_timestamp (stamp_clock en)) \<and>
         get_timestamp (stamp_clock en) = isoformat (stamp_clock en) @ ''Z'' \<and>
         (microsecond (stamp_clock en) = 0 \<longrightarrow>
            fits ''dddd-dd-ddTdd:dd:ddZ'' (get_timestamp (stamp_clock en))) \<and>
         (microsecond (stamp_clock en) \<noteq> 0 \<longrightarrow>
            fits ''dddd-dd-ddTdd:dd:dd.ddddddZ'' (get_timestamp (stamp_clock en)))"
proof -
  have z: "fits ''Z'' ''Z''" by simp
  from fits_append [OF isoformat_fits [OF assms] z]
  have "microsecond (stamp_clock en) = 0 \<longrightarrow>
          fits ''dddd-dd-ddTdd:dd:ddZ'' (get_timestamp (stamp_clock en))"
    and "microsecond (stamp_clock en) \<noteq> 0 \<longrightarrow>
          fits ''dddd-dd-ddTdd:dd:dd.ddddddZ'' (get_timestamp (stamp_clock en))"
    by (auto simp: get_timestamp_def)
  then show ?thesis
    by (simp add: handle_error_def Let_def get_timestamp_def)
qed

theorem handle_error_timestamp_witness:
  "valid_datetime \<lparr>year = 2023, month = 12, day = 25, hour = 10, minute = 30, second = 45,
                   microsecond = 0\<rparr> \<and>
   map_of (fst (handle_error
      \<lparr>id_clock = \<lparr>year = 2023, month = 12, day = 25, hour = 10, minute = 30, second = 45,
                   microsecond = 0\<rparr>,
       uuid4 = ''0f8fad5b-d9cb-469f-a165-70867728950e'',
       stamp_clock = \<lparr>year = 2023, month = 12, day = 25, hour = 10, minute = 30, second = 45,
                      microsecond = 0\<rparr>\<rparr>
      (raise ValidationError ''Invalid email format'') MEDIUM None None)) ''timestamp''
     = Some ''2023-12-25T10:30:45Z'' \<and>
   fits ''dddd-dd-ddTdd:dd:ddZ'' ''2023-12-25T10:30:45Z'' \<and>
   valid_datetime \<lparr>year = 2023, month = 12, day = 25, hour = 10, minute = 30, second = 45,
                   microsecond = 1234\<rparr> \<and>
   fits ''dddd-dd-ddTdd:dd:dd.ddddddZ''
     (get_timestamp \<lparr>year = 2023, month = 12, day = 25, hour = 10, minute = 30, second = 45,
                     microsecond = 1234\<rparr>)"
proof -
  let ?t0 = "\<lparr>year = 2023, month = 12, day = 25, hour = 10, minute = 30, second = 45,
              microsecond = 0\<rparr>"
  let ?t1 = "\<lparr>year = 2023, month = 12, day = 25, hour = 10, minute = 30, second = 45,
              microsecond = 1234\<rparr>"
  let ?en = "\<lambda>t. \<lparr>id_clock = ?t0, uuid4 = ''0f8fad5b-d9cb-469f-a165-70867728950e'',
                   stamp_clock = t\<rparr>"
  have v0: "valid_datetime (stamp_clock (?en ?t0))" and v1: "valid_datetime (stamp_clock (?en ?t1))"
    by (simp_all add: valid_datetime_def)
  have val: "get_timestamp ?t0 = ''2023-12-25T10:30:45Z''" by code_simp
  from handle_error_timestamp [OF v0, of "raise ValidationError ''Invalid email format''" MEDIUM None None]
  have "map_of (fst (handle_error (?en ?t0) (raise ValidationError ''Invalid email format'')
                  MEDIUM None None)) ''timestamp'' = Some (get_timestamp (stamp_clock (?en ?t0)))"
    and "microsecond (stamp_clock (?en ?t0)) = 0 \<longrightarrow>
           fits ''dddd-dd-ddTdd:dd:ddZ'' (get_timestamp (stamp_clock (?en ?t0)))"
    by blast+
  then have "map_of (fst (handle_error (?en ?t0) (raise ValidationError ''Invalid email format'')
                  MEDIUM None None)) ''timestamp'' = Some ''2023-12-25T10:30:45Z''"
    and "fits ''dddd-dd-ddTdd:dd:ddZ'' ''2023-12-25T10:30:45Z''"
    by (simp_all add: val)
  moreover
  from handle_error_timestamp [OF v1, of "raise ValidationError ''Invalid email format''" MEDIUM None None]
  have "microsecond (stamp_clock (?en ?t1)) \<noteq> 0 \<longrightarrow>
          fits ''dddd-dd-ddTdd:dd:dd.ddddddZ'' (get_timestamp (stamp_clock (?en ?t1)))"
    by blast
  then have "fits ''dddd-dd-ddTdd:dd:dd.ddddddZ'' (get_timestamp ?t1)"
    by simp
  ultimately show ?thesis using v0 v1 by simp
qed

text \<open>
  Claim C9 as stated fails whenever the clock's reading has microseconds:
  \<^verbatim>\<open>isoformat()\<close> then writes the fraction.
\<close>

theorem handle_error_timestamp_fraction:
  "map_of (fst (handle_error
      \<lparr>id_clock = \<lparr>year = 2023, month = 12, day = 25, hour = 10, minute = 30, second = 45,
                   microsecond = 1234\<rparr>,
       uuid4 = ''0f8fad5b-d9cb-469f-a165-70867728950e'',
       stamp_clock = \<lparr>year = 2023, month = 12, day = 25, hour = 10, minute = 30, second = 45,
                      microsecond = 1234\<rparr>\<rparr>
      (raise ValidationError ''Invalid email format'') MEDIUM None None)) ''timestamp''
     = Some ''2023-12-25T10:30:45.001234Z'' \<and>
   \<not> fits ''dddd-dd-ddTdd:dd:ddZ'' ''2023-12-25T10:30:45.001234Z''"
  by code_simp

section \<open>Properties of the services\<close>

lemma find_replace:
  "find (\<lambda>a. art_id a = i) xs = Some e \<Longrightarrow> art_id e' = i \<Longrightarrow>
   find (\<lambda>a. art_id a = i) (map (\<lambda>a. if art_id a = i then e' else a) xs) = Some e'"
  by (induction xs) (auto split: if_splits)

lemma set_attrs_id [simp]: "art_id (set_attrs e k) = art_id e"
  by (simp add: set_attrs_def)

lemma find_id: "find (\<lambda>a. art_id a = i) xs = Some e \<Longrightarrow> art_id e = i"
  by (induction xs) (auto split: if_splits)

lemma published_at_set_attrs_raw:
  "published_at (set_attrs a k) =
     (case upd_published_at k of None \<Rightarrow> published_at a | Some v \<Rightarrow> v)"
  by (simp add: set_attrs_def)

lemma is_published_set_attrs_raw:
  "is_published (set_attrs a k) =
     (case upd_is_published k of None \<Rightarrow> is_published a | Some v \<Rightarrow> v)"
  by (simp add: set_attrs_def)

lemma slug_set_attrs_raw:
  "art_slug (set_attrs a k) = (case upd_slug k of None \<Rightarrow> art_slug a | Some v \<Rightarrow> v)"
  by (simp add: set_attrs_def)

lemma article_update_conflict:
  assumes "article_get_by_id s i = Some e" and "slug_conflict s i (set_attrs e k)"
  shows "article_update s i k =
           Inl \<lparr>exn_class = DatabaseError, exn_message = ''Failed to update Article'',
                exn_details = integrity_details\<rparr>"
  unfolding article_update_def Let_def using assms by (simp add: slug_conflict_def)

lemma article_update_done:
  assumes "article_get_by_id s i = Some e" and "\<not> slug_conflict s i (set_attrs e k)"
  shows "article_update s i k = Inr (replaced s i (set_attrs e k), Some (set_attrs e k))"
  unfolding article_update_def Let_def using assms by (simp add: slug_conflict_def replaced_def)

lemma get_replaced:
  assumes "article_get_by_id s i = Some e"
  shows "article_get_by_id (replaced s i (set_attrs e k)) i = Some (set_attrs e k)"
proof -
  from assms have f: "find (\<lambda>a. art_id a = i) (articles s) = Some e"
    by (simp add: article_get_by_id_def)
  then have "art_id e = i" by (rule find_id)
  then have "art_id (set_attrs e k) = i" by simp
  with f have "find (\<lambda>a. art_id a = i)
      (map (\<lambda>a. if art_id a = i then set_attrs e k else a) (articles s)) = Some (set_attrs e k)"
    by (rule find_replace)
  then show ?thesis by (simp add: article_get_by_id_def replaced_def)
qed

lemma update_article_cases:
  assumes got: "article_get_by_id s aid = Some a"
  shows "(isl (fst (update_article ev s aid data uid)) \<and>
          snd (update_article ev s aid data uid) = s) \<or>
         update_article ev s aid data uid =
           (Inr (set_attrs a (update_data ev s aid a data)),
            replaced s aid (set_attrs a (update_data ev s aid a data)))"
proof (cases "may_edit s a uid \<and>
    \<not> (case d_category_id data of None \<Rightarrow> False | Some cid \<Rightarrow> category_rejected s cid)")
  case False
  with got show ?thesis
    unfolding update_article_def by (cases "may_edit s a uid") simp_all
next
  case ok: True
  show ?thesis
  proof (cases "slug_conflict s aid (set_attrs a (update_data ev s aid a data))")
    case True
    from article_update_conflict [OF got True] got ok show ?thesis
      unfolding update_article_def by simp
  next
    case False
    from article_update_done [OF got False] got ok show ?thesis
      unfolding update_article_def by simp
  qed
qed

lemma upd_published_at_data:
  "upd_published_at (update_data ev s aid a data) =
     (case d_is_published data of
        None \<Rightarrow> None
      | Some flag \<Rightarrow> if flag \<and> \<not> is_published a then Some (Some (utcnow ev))
                     else if \<not> flag \<and> is_published a then Some None
                     else None)"
  by (simp add: update_data_def)

lemma upd_is_published_data:
  "upd_is_published (update_data ev s aid a data) = d_is_published data"
  by (simp add: update_data_def)

lemma upd_slug_data_flag:
  "upd_slug (update_data ev s aid a (data\<lparr>d_is_published := f\<rparr>)) =
   upd_slug (update_data ev s aid a data)"
  by (simp add: update_data_def)

text \<open>
  Claim C6. An update that sets the flag to true on a draft publishes it and sets
  \<open>published_at\<close> to the clock's reading; an update that sets the flag to false on a
  published article unpublishes it and clears \<open>published_at\<close>; an update whose flag equals
  the stored one leaves flag and timestamp as they were, and whether it raises does not
  depend on the flag; \<^verbatim>\<open>publish\<close> on a published article and \<^verbatim>\<open>unpublish\<close> on a draft
  return the article unchanged. The row returned by a successful update is the stored row.
\<close>

theorem publish_transitions:
  assumes "article_get_by_id s aid = Some a"
    and "update_article ev s aid data uid = (Inr a', s')"
  shows "article_get_by_id s' aid = Some a' \<and>
    (d_is_published data = Some True \<and> \<not> is_published a \<longrightarrow>
       is_published a' \<and> published_at a' = Some (utcnow ev)) \<and>
    (d_is_published data = Some False \<and> is_published a \<longrightarrow>
       \<not> is_published a' \<and> published_at a' = None) \<and>
    (d_is_published data = Some (is_published a) \<longrightarrow>
       is_published a' = is_published a \<and> published_at a' = published_at a) \<and>
    (is_published b \<longrightarrow> publish now b = b) \<and>
    (\<not> is_published b \<longrightarrow> unpublish b = b) \<and>
    isl (fst (update_article ev s aid (data\<lparr>d_is_published := Some (is_published a)\<rparr>) uid)) =
    isl (fst (update_article ev s aid (data\<lparr>d_is_published := None\<rparr>) uid))"
proof -
  let ?k = "update_data ev s aid a data"
  from update_article_cases [OF assms(1), of ev data uid] assms(2)
  have a': "a' = set_attrs a ?k" and s': "s' = replaced s aid (set_attrs a ?k)"
    by auto
  have stored: "article_get_by_id s' aid = Some a'"
    unfolding a' s' by (rule get_replaced [OF assms(1)])
  have pub: "d_is_published data = Some True \<and> \<not> is_published a \<longrightarrow>
       is_published a' \<and> published_at a' = Some (utcnow ev)"
    unfolding a'
    by (simp add: published_at_set_attrs_raw is_published_set_attrs_raw
        upd_published_at_data upd_is_published_data)
  have unpub: "d_is_published data = Some False \<and> is_published a \<longrightarrow>
       \<not> is_published a' \<and> published_at a' = None"
    unfolding a'
    by (simp add: published_at_set_attrs_raw is_published_set_attrs_raw
        upd_published_at_data upd_is_published_data)
  have self: "d_is_published data = Some (is_published a) \<longrightarrow>
       is_published a' = is_published a \<and> published_at a' = published_at a"
    unfolding a'
    by (simp add: published_at_set_attrs_raw is_published_set_attrs_raw
        upd_published_at_data upd_is_published_data)
  have noop: "(is_published b \<longrightarrow> publish now b = b) \<and> (\<not> is_published b \<longrightarrow> unpublish b = b)"
    by (simp add: publish_def unpublish_def)
  have err: "isl (fst (update_article ev s aid (data\<lparr>d_is_published := f\<rparr>) uid)) =
             isl (fst (update_article ev s aid (data\<lparr>d_is_published := g\<rparr>) uid))" for f g
  proof -
    have c: "slug_conflict s aid (set_attrs a (update_data ev s aid a (data\<lparr>d_is_published := f\<rparr>)))
           = slug_conflict s aid (set_attrs a (update_data ev s aid a (data\<lparr>d_is_published := g\<rparr>)))"
      by (simp add: slug_conflict_def slug_set_attrs_raw upd_slug_data_flag)
    show ?thesis
    proof (cases "may_edit s a uid \<and>
      \<not> (case d_category_id data of None \<Rightarrow> False | Some cid \<Rightarrow> category_rejected s cid)")
      case False
      with assms(1) show ?thesis
        unfolding update_article_def by (cases "may_edit s a uid") simp_all
    next
      case ok: True
      show ?thesis
      proof (cases "slug_conflict s aid
                      (set_attrs a (update_data ev s aid a (data\<lparr>d_is_published := f\<rparr>)))")
        case True
        from article_update_conflict [OF assms(1) True]
          article_update_conflict [OF assms(1) True [unfolded c]] assms(1) ok
        show ?thesis unfolding update_article_def by simp
      next
        case False
        from article_update_done [OF assms(1) False]
          article_update_done [OF assms(1) False [unfolded c]] assms(1) ok
        show ?thesis unfolding update_article_def by simp
      qed
    qed
  qed
  from stored pub unpub self noop err [of "Some (is_published a)" None]
  show ?thesis by blast
qed

theorem publish_transitions_witness:
  "article_get_by_id sample_db 2 = Some draft_row \<and>
   d_is_published (flag_only (Some True)) = Some True \<and> \<not> is_published draft_row \<and>
   fst (update_article sample_env sample_db 2 (flag_only (Some True)) 1) =
     Inr (draft_row\<lparr>is_published := True, published_at := Some boxing_day\<rparr>) \<and>
   article_get_by_id (snd (update_article sample_env sample_db 2 (flag_only (Some True)) 1)) 2 =
     Some (draft_row\<lparr>is_published := True, published_at := Some boxing_day\<rparr>) \<and>
   utcnow sample_env = boxing_day \<and>
   article_get_by_id sample_db 1 = Some published_row \<and>
   d_is_published (flag_only (Some False)) = Some False \<and> is_published published_row \<and>
   fst (update_article sample_env sample_db 1 (flag_only (Some False)) 1) =
     Inr (published_row\<lparr>is_published := False, published_at := None\<rparr>) \<and>
   article_get_by_id (snd (update_article sample_env sample_db 1 (flag_only (Some False)) 1)) 1 =
     Some (published_row\<lparr>is_published := False, published_at := None\<rparr>) \<and>
   fst (update_article sample_env sample_db 1 (flag_only (Some True)) 1) = Inr published_row \<and>
   publish boxing_day published_row = published_row \<and>
   unpublish draft_row = draft_row"
proof -
  let ?up = "update_article sample_env sample_db 2 (flag_only (Some True)) 1"
  let ?down = "update_article sample_env sample_db 1 (flag_only (Some False)) 1"
  let ?same = "update_article sample_env sample_db 1 (flag_only (Some True)) 1"
  let ?a1 = "draft_row\<lparr>is_published := True, published_at := Some boxing_day\<rparr>"
  let ?a2 = "published_row\<lparr>is_published := False, published_at := None\<rparr>"
  have g2: "article_get_by_id sample_db 2 = Some draft_row" by code_simp
  have g1: "article_get_by_id sample_db 1 = Some published_row" by code_simp
  have d: "\<not> is_published draft_row" and p: "is_published published_row"
    by (simp_all add: draft_row_def published_row_def)
  have now: "utcnow sample_env = boxing_day" by (simp add: sample_env_def)
  have f: "d_is_published (flag_only (Some True)) = Some True"
    "d_is_published (flag_only (Some False)) = Some False"
    by (simp_all add: flag_only_def)
  have fu: "fst ?up = Inr ?a1" by code_simp
  then have up: "?up = (Inr ?a1, snd ?up)" by (simp add: prod_eq_iff)
  have fd: "fst ?down = Inr ?a2" by code_simp
  then have down: "?down = (Inr ?a2, snd ?down)" by (simp add: prod_eq_iff)
  have fs: "fst ?same = Inr published_row" by code_simp
  from publish_transitions [OF g2 up, of draft_row boxing_day] d f
  have r1: "article_get_by_id (snd ?up) 2 = Some ?a1" "unpublish draft_row = draft_row"
    by blast+
  from publish_transitions [OF g1 down, of published_row boxing_day] p f
  have r2: "article_get_by_id (snd ?down) 1 = Some ?a2"
    "publish boxing_day published_row = published_row"
    by blast+
  from fu fd fs r1 r2 g1 g2 d p f now show ?thesis by blast
qed

text \<open>
  Claim C7. For every update of an existing article whose payload has no publication
  flag, or the flag the row already has, the stored \<open>published_at\<close> after
  \<^verbatim>\<open>update_article\<close> is the one before it, whatever else the payload changes and whether
  the update succeeds or raises.
\<close>

theorem update_keeps_published_at:
  assumes "article_get_by_id s aid = Some a"
    and "d_is_published data = None \<or> d_is_published data = Some (is_published a)"
  shows "map_option published_at
           (article_get_by_id (snd (update_article ev s aid data uid)) aid)
         = Some (published_at a)"
proof -
  let ?a' = "set_attrs a (update_data ev s aid a data)"
  from assms(2) have same: "published_at ?a' = published_at a"
    by (auto simp: published_at_set_attrs_raw upd_published_at_data)
  from update_article_cases [OF assms(1), of ev data uid] show ?thesis
  proof
    assume "isl (fst (update_article ev s aid data uid)) \<and>
            snd (update_article ev s aid data uid) = s"
    with assms(1) show ?thesis by simp
  next
    assume "update_article ev s aid data uid = (Inr ?a', replaced s aid ?a')"
    with get_replaced [OF assms(1)] same show ?thesis by simp
  qed
qed

theorem update_keeps_published_at_witness:
  "article_get_by_id sample_db 1 = Some published_row \<and>
   (d_is_published retitled = None \<or> d_is_published retitled = Some (is_published published_row)) \<and>
   map_option art_title (article_get_by_id (snd (update_article sample_env sample_db 1 retitled 1)) 1)
     = Some (ascii ''A New Title'') \<and>
   map_option published_at
     (article_get_by_id (snd (update_article sample_env sample_db 1 retitled 1)) 1)
     = Some (Some christmas)"
proof -
  have g: "article_get_by_id sample_db 1 = Some published_row" by code_simp
  have f: "d_is_published retitled = None \<or>
           d_is_published retitled = Some (is_published published_row)"
    by (simp add: retitled_def)
  have t: "map_option art_title
             (article_get_by_id (snd (update_article sample_env sample_db 1 retitled 1)) 1)
           = Some (ascii ''A New Title'')"
    by code_simp
  have p: "published_at published_row = Some christmas" by (simp add: published_row_def)
  from update_keeps_published_at [OF g f, of sample_env 1] g f t p
  show ?thesis by simp
qed

text \<open>
  Claim C2 fails on the code: \<^verbatim>\<open>create_article\<close> stores the row with the flag of the
  payload and then calls \<^verbatim>\<open>publish\<close>, which does nothing on a row whose flag is already
  set. An article created as published has no \<open>published_at\<close>.
\<close>

theorem create_article_published_unstamped:
  "fst (create_article sample_env sample_db hello_data 1) =
     Inr \<lparr>art_id = 3, art_title = ascii ''Hello, World!'', art_slug = ascii ''hello-world'',
          art_content = ascii ''Hi'', art_excerpt = None, is_published = True,
          published_at = None, author_id = 1, art_category_id = None\<rparr>"
  by code_simp

lemma reraise_database_error:
  "fst (reraise_validation en
          \<lparr>exn_class = DatabaseError, exn_message = m, exn_details = d\<rparr> context)
   = storage_error en"
  by (simp add: reraise_validation_def handle_error_def getitem_def Let_def
      get_default_message_def messages_def storage_error_def)

lemma create_article_body_collision:
  assumes "d_title data = Some t" and "t \<noteq> []" and "d_content data = Some c" and "c \<noteq> []"
    and "\<not> category_rejected s (case d_category_id data of None \<Rightarrow> None | Some v \<Rightarrow> v)"
    and "assign_slug (ucd ev) (article_rows s) None t
           \<in> set (map art_slug (articles (other_writers ev s)))"
  shows "create_article_body ev s data author =
           (Inl \<lparr>exn_class = DatabaseError, exn_message = ''Failed to create Article'',
                 exn_details = integrity_details\<rparr>, other_writers ev s)"
  unfolding create_article_body_def Let_def using assms
  by (simp add: article_create_def)

text \<open>
  A creation that runs alone never meets the constraint: the assigned slug is not in
  the table, the row is inserted, and it carries no \<open>published_at\<close>.
\<close>

lemma assigned_slug_free:
  "assign_slug U (article_rows s) None t \<notin> set (map art_slug (articles s))"
proof -
  from ensure_unique_result [of "article_rows s" None "generate_slug U t" "generate_slug U t" 1]
  have "\<not> slug_exists (article_rows s) (assign_slug U (article_rows s) None t) None"
    by (simp add: assign_slug_def Let_def)
  then show ?thesis
    by (force simp: slug_exists_iff article_rows_def)
qed

lemma create_article_alone:
  assumes "other_writers ev s = s"
    and "d_title data = Some t" and "t \<noteq> []" and "d_content data = Some c" and "c \<noteq> []"
    and "\<not> category_rejected s (case d_category_id data of None \<Rightarrow> None | Some v \<Rightarrow> v)"
  shows "\<exists>a. fst (create_article ev s data author) = Inr a \<and>
             art_slug a = assign_slug (ucd ev) (article_rows s) None t \<and>
             published_at a = None"
proof -
  let ?row = "\<lparr>art_id = 0, art_title = strip (ucd ev) t,
      art_slug = assign_slug (ucd ev) (article_rows s) None t,
      art_content = sanitize_html ev c,
      art_excerpt = strip_or_none (ucd ev) (case d_excerpt data of None \<Rightarrow> [] | Some e \<Rightarrow> e),
      is_published = (case d_is_published data of None \<Rightarrow> False | Some b \<Rightarrow> b),
      published_at = None, author_id = author,
      art_category_id = (case d_category_id data of None \<Rightarrow> None | Some v \<Rightarrow> v)\<rparr>"
  let ?e = "?row\<lparr>art_id := next_id (map art_id (articles s))\<rparr>"
  have c: "article_create s ?row = Inr (s\<lparr>articles := articles s @ [?e]\<rparr>, ?e)"
    using assigned_slug_free [of "ucd ev" s t] by (simp add: article_create_def Let_def)
  have "fst (create_article_body ev s data author) = Inr (if is_published ?e then publish (utcnow ev) ?e else ?e)"
    unfolding create_article_body_def Let_def using assms c by simp
  moreover have "published_at (if is_published ?e then publish (utcnow ev) ?e else ?e) = None"
    "art_slug (if is_published ?e then publish (utcnow ev) ?e else ?e) =
       assign_slug (ucd ev) (article_rows s) None t"
    by (simp_all add: publish_def)
  ultimately show ?thesis
    by (cases "create_article_body ev s data author") (auto simp: create_article_def)
qed

text \<open>
  Claim C4, as amended. When the slug assigned to a new article is taken at the store by
  the time of the insert, the repository turns the constraint violation into a
  \<^verbatim>\<open>DatabaseError\<close>, and \<^verbatim>\<open>create_article\<close> raises a \<^verbatim>\<open>ValidationError\<close> with the
  default message of severity MEDIUM, whose details name the type \<open>DatabaseError\<close>;
  nothing is inserted and no other suffix is tried.
\<close>

theorem create_article_collision:
  assumes "d_title data = Some t" and "t \<noteq> []" and "d_content data = Some c" and "c \<noteq> []"
    and "\<not> category_rejected s (case d_category_id data of None \<Rightarrow> None | Some v \<Rightarrow> v)"
    and "assign_slug (ucd ev) (article_rows s) None t
           \<in> set (map art_slug (articles (other_writers ev s)))"
  shows "fst (create_article ev s data author) = Inl (storage_error (entropy ev)) \<and>
         fst (snd (create_article ev s data author)) = other_writers ev s \<and>
         exn_class (storage_error (entropy ev)) = ValidationError \<and>
         exn_message (storage_error (entropy ev)) =
           ''An error occurred while processing your request.'' \<and>
         map_of (exn_details (storage_error (entropy ev))) ''type'' = Some ''DatabaseError''"
proof -
  have "create_article ev s data author =
     (let (e', logs) = reraise_validation (entropy ev)
            \<lparr>exn_class = DatabaseError, exn_message = ''Failed to create Article'',
              exn_details = integrity_details\<rparr>
            [(''operation'', ascii ''article_creation''),
             (''author_id'', ascii (str_nat author))]
      in (Inl e', other_writers ev s, logs))"
    unfolding create_article_def create_article_body_collision [OF assms] by simp
  then have "fst (create_article ev s data author) = Inl (storage_error (entropy ev))"
    and "fst (snd (create_article ev s data author)) = other_writers ev s"
    using reraise_database_error [of "entropy ev" "''Failed to create Article''" integrity_details
        "[(''operation'', ascii ''article_creation''),
          (''author_id'', ascii (str_nat author))]"]
    by (simp_all add: split_beta Let_def)
  then show ?thesis by (simp add: storage_error_def)
qed

theorem create_article_collision_witness:
  "d_title hello_data = Some (ascii ''Hello, World!'') \<and> ascii ''Hello, World!'' \<noteq> [] \<and>
   d_content hello_data = Some (ascii ''Hi'') \<and> ascii ''Hi'' \<noteq> [] \<and>
   \<not> category_rejected sample_db (case d_category_id hello_data of None \<Rightarrow> None | Some v \<Rightarrow> v) \<and>
   assign_slug (ucd rival_env) (article_rows sample_db) None (ascii ''Hello, World!'')
     \<in> set (map art_slug (articles (other_writers rival_env sample_db))) \<and>
   fst (create_article rival_env sample_db hello_data 1) = Inl (storage_error (entropy rival_env)) \<and>
   fst (snd (create_article rival_env sample_db hello_data 1)) = other_writers rival_env sample_db"
proof -
  have h1: "d_title hello_data = Some (ascii ''Hello, World!'')" by (simp add: hello_data_def)
  have h2: "ascii ''Hello, World!'' \<noteq> []" by (simp add: ascii_def)
  have h3: "d_content hello_data = Some (ascii ''Hi'')" by (simp add: hello_data_def)
  have h4: "ascii ''Hi'' \<noteq> []" by (simp add: ascii_def)
  have h5: "\<not> category_rejected sample_db
               (case d_category_id hello_data of None \<Rightarrow> None | Some v \<Rightarrow> v)"
    by (simp add: hello_data_def category_rejected_def)
  have h6: "assign_slug (ucd rival_env) (article_rows sample_db) None (ascii ''Hello, World!'')
              \<in> set (map art_slug (articles (other_writers rival_env sample_db)))"
    by code_simp
  from create_article_collision [OF h1 h2 h3 h4 h5 h6, of 1] h1 h2 h3 h4 h5 h6
  show ?thesis by blast
qed

text \<open>
  Claim C4 as stated fails: with the slug \<open>hello-world\<close> committed by another
  transaction after the check, the creation raises, and no row with the next suffix
  appears in the store.
\<close>

theorem create_article_collision_not_retried:
  "isl (fst (create_article rival_env sample_db hello_data 1)) \<and>
   map art_slug (articles (fst (snd (create_article rival_env sample_db hello_data 1)))) =
     [ascii ''test-article'', ascii ''draft-article'', ascii ''hello-world'']"
  by code_simp

lemma authenticate_user_reraise:
  assumes "authenticate_user_body ev s d = Inl (raise AuthenticationError m)"
  shows "fst (authenticate_user ev s d) = Inl (auth_error (entropy ev)) \<and>
         fst (snd (authenticate_user ev s d)) = s"
  using assms
  by (simp add: authenticate_user_def raise_def handle_error_def getitem_def Let_def
      auth_error_def)

lemma auth_failure_raises:
  assumes "auth_failure ev s d cause"
  shows "\<exists>m. authenticate_user_body ev s d = Inl (raise AuthenticationError m)"
proof (cases "load_login ev d")
  case (Inl msgs)
  with assms show ?thesis by (simp add: auth_failure_def)
next
  case (Inr c)
  show ?thesis
  proof (cases "get_by_email (ucd ev) s (cred_email c)")
    case None
    with Inr have "authenticate_user_body ev s d =
        Inl (raise AuthenticationError ''Invalid email or password'')"
      by (simp add: authenticate_user_body_def validate_user_login_def)
    then show ?thesis by blast
  next
    case (Some u)
    with Inr assms
    have "\<not> is_active u \<or> verify_password ev (cred_password c) (password_hash u) = Inr False"
      by (auto simp: auth_failure_def)
    with Inr Some have "authenticate_user_body ev s d =
        Inl (raise AuthenticationError ''Account is deactivated'') \<or>
      authenticate_user_body ev s d =
        Inl (raise AuthenticationError ''Invalid email or password'')"
      by (auto simp: authenticate_user_body_def validate_user_login_def)
    then show ?thesis by blast
  qed
qed

text \<open>
  As long as the password check returns, the three causes of a failed login (email not
  registered, wrong password, deactivated account) are answered alike: an
  \<^verbatim>\<open>AuthenticationError\<close> with one fixed message, whose details depend only on what
  \<^verbatim>\<open>handle_error\<close> reads.
\<close>

lemma authenticate_user_uniform:
  assumes "auth_failure ev s login_data cause"
    and "auth_failure ev' s' login_data' cause'"
    and "entropy ev' = entropy ev"
  shows "fst (authenticate_user ev s login_data) = fst (authenticate_user ev' s' login_data') \<and>
         fst (authenticate_user ev s login_data) = Inl (auth_error (entropy ev))"
proof -
  from auth_failure_raises [OF assms(1)] authenticate_user_reraise
  have "fst (authenticate_user ev s login_data) = Inl (auth_error (entropy ev))"
    by blast
  moreover from auth_failure_raises [OF assms(2)] authenticate_user_reraise
  have "fst (authenticate_user ev' s' login_data') = Inl (auth_error (entropy ev'))"
    by blast
  ultimately show ?thesis using assms(3) by simp
qed

lemma encode_utf8_ascii:
  assumes "list_all (\<lambda>c. c < 128) s"
  shows "encode_utf8 s = Inr s"
proof -
  from assms have "\<not> list_ex is_surrogate s"
    by (induction s) (auto simp: is_surrogate_def)
  moreover from assms have "concat (map encode_char s) = s"
    by (induction s) (auto simp: encode_char_def)
  ultimately show ?thesis by (simp add: encode_utf8_def)
qed

lemma authenticate_user_uniform_sample:
  "auth_failure sample_env sample_db unknown_login EmailNotRegistered \<and>
   auth_failure sample_env sample_db wrong_password_login WrongPassword \<and>
   auth_failure sample_env sample_db deactivated_login AccountDeactivated \<and>
   fst (authenticate_user sample_env sample_db unknown_login) =
     fst (authenticate_user sample_env sample_db wrong_password_login) \<and>
   fst (authenticate_user sample_env sample_db unknown_login) =
     fst (authenticate_user sample_env sample_db deactivated_login)"
proof -
  have none: "get_by_email (ucd sample_env) sample_db (ascii ''nobody@example.com'') = None"
    by code_simp
  have reg: "get_by_email (ucd sample_env) sample_db (ascii ''test@example.com'') = Some test_user"
    by code_simp
  have gone: "get_by_email (ucd sample_env) sample_db (ascii ''gone@example.com'') = Some gone_user"
    by code_simp
  have "encode_utf8 (ascii ''wrong'') = Inr (ascii ''wrong'')"
    and "encode_utf8 (ascii ''bcrypt:TestPass123!'') = Inr (ascii ''bcrypt:TestPass123!'')"
    by (rule encode_utf8_ascii, simp add: ascii_def)+
  then have wrong: "verify_password sample_env (ascii ''wrong'') (password_hash test_user) = Inr False"
    by (simp add: verify_password_def test_user_def sample_env_def) (simp add: ascii_def)
  have c1: "auth_failure sample_env sample_db unknown_login EmailNotRegistered"
    using none by (simp add: auth_failure_def unknown_login_def sample_env_def)
  have c2: "auth_failure sample_env sample_db wrong_password_login WrongPassword"
    using reg wrong
    by (simp add: auth_failure_def wrong_password_login_def sample_env_def)
       (simp add: test_user_def)
  have c3: "auth_failure sample_env sample_db deactivated_login AccountDeactivated"
    using gone
    by (simp add: auth_failure_def deactivated_login_def sample_env_def)
       (simp add: gone_user_def)
  from authenticate_user_uniform [OF c1 c2 refl]
  have a: "fst (authenticate_user sample_env sample_db unknown_login) =
           fst (authenticate_user sample_env sample_db wrong_password_login)"
    by blast
  from authenticate_user_uniform [OF c1 c3 refl]
  have b: "fst (authenticate_user sample_env sample_db unknown_login) =
           fst (authenticate_user sample_env sample_db deactivated_login)"
    by blast
  from c1 c2 c3 a b show ?thesis by blast
qed

text \<open>
  A password that has no UTF-8 encoding stops the check of a registered, active account
  with a \<^verbatim>\<open>UnicodeEncodeError\<close>, which the handler lets through, whatever the password
  library does.
\<close>

lemma authenticate_user_unencodable:
  assumes "load_login ev login_data = Inr c"
    and "get_by_email (ucd ev) s (cred_email c) = Some u" and "is_active u"
    and "list_ex is_surrogate (cred_password c)"
  shows "fst (authenticate_user ev s login_data) =
           Inl (raise (Builtin ''UnicodeEncodeError'') ''surrogates not allowed'')"
proof -
  from assms(4) have "verify_password ev (cred_password c) (password_hash u) =
      Inl (raise (Builtin ''UnicodeEncodeError'') ''surrogates not allowed'')"
    by (simp add: verify_password_def encode_utf8_def)
  with assms(1-3) have "authenticate_user_body ev s login_data =
      Inl (raise (Builtin ''UnicodeEncodeError'') ''surrogates not allowed'')"
    by (simp add: authenticate_user_body_def validate_user_login_def)
  then show ?thesis by (simp add: authenticate_user_def raise_def)
qed

text \<open>
  Claim C10 fails on the code. With the same password, one lone surrogate, the login for
  a registered and active account ends in a \<^verbatim>\<open>UnicodeEncodeError\<close> and the login for an
  address nobody has in the \<^verbatim>\<open>AuthenticationError\<close> of every failed login: the two
  answers tell whether the account exists.
\<close>

theorem authenticate_user_surrogate_password:
  "get_by_email (ucd sample_env) sample_db (ascii ''test@example.com'') = Some test_user \<and>
   is_active test_user \<and>
   get_by_email (ucd sample_env) sample_db (ascii ''nobody@example.com'') = None \<and>
   fst (authenticate_user sample_env sample_db surrogate_login) =
     Inl (raise (Builtin ''UnicodeEncodeError'') ''surrogates not allowed'') \<and>
   fst (authenticate_user sample_env sample_db surrogate_unknown_login) =
     Inl (auth_error (entropy sample_env)) \<and>
   fst (authenticate_user sample_env sample_db surrogate_login) \<noteq>
     fst (authenticate_user sample_env sample_db surrogate_unknown_login)"
proof -
  have reg: "get_by_email (ucd sample_env) sample_db (ascii ''test@example.com'') = Some test_user"
    by code_simp
  have act: "is_active test_user" by (simp add: test_user_def)
  have none: "get_by_email (ucd sample_env) sample_db (ascii ''nobody@example.com'') = None"
    by code_simp
  have l1: "load_login sample_env surrogate_login =
      Inr \<lparr>cred_email = ascii ''test@example.com'', cred_password = [55296]\<rparr>"
    by (simp add: sample_env_def surrogate_login_def)
  have l2: "load_login sample_env surrogate_unknown_login =
      Inr \<lparr>cred_email = ascii ''nobody@example.com'', cred_password = [55296]\<rparr>"
    by (simp add: sample_env_def surrogate_unknown_login_def)
  let ?c = "\<lparr>cred_email = ascii ''test@example.com'', cred_password = [55296]\<rparr>"
  have reg': "get_by_email (ucd sample_env) sample_db (cred_email ?c) = Some test_user"
    using reg by simp
  have sur: "list_ex is_surrogate (cred_password ?c)" by (simp add: is_surrogate_def)
  have r1: "fst (authenticate_user sample_env sample_db surrogate_login) =
      Inl (raise (Builtin ''UnicodeEncodeError'') ''surrogates not allowed'')"
    by (rule authenticate_user_unencodable [OF l1 reg' act sur])
  have "authenticate_user_body sample_env sample_db surrogate_unknown_login =
      Inl (raise AuthenticationError ''Invalid email or password'')"
    by (simp add: authenticate_user_body_def validate_user_login_def l2 none)
  then have r2: "fst (authenticate_user sample_env sample_db surrogate_unknown_login) =
      Inl (auth_error (entropy sample_env))"
    using authenticate_user_reraise by blast
  have "raise (Builtin ''UnicodeEncodeError'') ''surrogates not allowed'' \<noteq>
        auth_error (entropy sample_env)"
    by (simp add: raise_def auth_error_def)
  with reg act none r1 r2 show ?thesis by simp
qed

end
